theory Spec2Isabelle
  imports Main "HOL-Library.Word" "HOL-Library.Signed_Division"
begin

section \<open>Shared data\<close>

text \<open>
  Go's \<^verbatim>\<open>byte\<close> is an unsigned 8-bit integer; a \<^verbatim>\<open>[]byte\<close> is a list of them. Where the
  source only takes \<^verbatim>\<open>len\<close> of a slice or hands it to a parser, \<^verbatim>\<open>nil\<close> and the empty
  slice are the same value \<open>[]\<close>; where the source compares a slice with \<^verbatim>\<open>nil\<close> the field
  is an \<open>option\<close>.
\<close>

type_synonym byte = "8 word"

text \<open>
  A Go \<^verbatim>\<open>error\<close> value: \<^verbatim>\<open>errors.New\<close> and \<^verbatim>\<open>errors.Errorf\<close> build one from a message,
  \<^verbatim>\<open>errors.Wrap err msg\<close> keeps the cause \<open>err\<close> under a new message.
\<close>

datatype error = ErrorNew string | ErrorWrap error string

text \<open>
  \<^verbatim>\<open>time.Time\<close> as seconds and nanoseconds since the Unix epoch. \<^verbatim>\<open>time.Unix(sec, nsec)\<close>
  takes two \<^verbatim>\<open>int64\<close>; a 64-bit word is read as signed by \<open>sint\<close>. Nanoseconds outside
  \<open>[0, 10^9)\<close> are carried into the seconds as the library does it: the quotient truncates
  towards zero (\<open>sdiv\<close>), a negative remainder is lifted by one second, and the seconds are
  added in \<^verbatim>\<open>int64\<close>, where they wrap.
\<close>

datatype time = Time (unixSec: int) (unixNsec: int)

definition time_Unix :: "64 word \<Rightarrow> 64 word \<Rightarrow> time" where
  "time_Unix sec nsec =
     (if sint nsec < 0 \<or> 1000000000 \<le> sint nsec then
        let n = word_of_int (sint nsec sdiv 1000000000) :: 64 word;
            sec1 = sec + n;
            nsec1 = nsec - n * 1000000000
        in if sint nsec1 < 0 then Time (sint (sec1 - 1)) (sint (nsec1 + 1000000000))
           else Time (sint sec1) (sint nsec1)
      else Time (sint sec) (sint nsec))"

text \<open>
  \<^verbatim>\<open>x509.Certificate\<close>: the fields this code touches. Every other field of the Go struct
  lives in the extension slot of the record scheme, so a function on
  \<open>'x x509_Certificate_scheme\<close> is a function on the whole struct.
\<close>

record x509_Certificate =
  Raw :: "byte list"
  NotBefore :: time
  NotAfter :: time

text \<open>A plain (non-certificate) SSH public key: algorithm name and key blob.\<close>

datatype KeyData = KeyData (keyAlgo: string) (keyBlob: "byte list")

text \<open>\<^verbatim>\<open>ssh.Certificate\<close> (golang.org/x/crypto/ssh).\<close>

record ssh_Certificate =
  Nonce :: "byte list"
  Key :: KeyData
  Serial :: "64 word"
  CertType :: "32 word"
  KeyId :: string
  ValidPrincipals :: "string list"
  ValidAfter :: "64 word"
  ValidBefore :: "64 word"
  Signature :: "byte list"

text \<open>
  \<^verbatim>\<open>ssh.PublicKey\<close> is an interface; the two implementations this code tells apart are a
  plain key and \<^verbatim>\<open>*ssh.Certificate\<close>.
\<close>

datatype PublicKey = PlainKey KeyData | CertificateKey ssh_Certificate

definition ssh_UserCert :: "32 word" where "ssh_UserCert = 1"
definition ssh_HostCert :: "32 word" where "ssh_HostCert = 2"

section \<open>authority/options.go\<close>

subsection \<open>The Authority and its collaborators\<close>

text \<open>
  Interface values and callbacks that options.go only stores are opaque handles here.
\<close>

datatype AuthDB = AuthDB nat
datatype KeyManager = KeyManager nat
datatype Signer = Signer nat
datatype SSHSigner = SSHSigner nat
datatype GetIdentityFunc = GetIdentityFunc nat
datatype SSHBastionFunc = SSHBastionFunc nat
datatype SSHGetHostsFunc = SSHGetHostsFunc nat
datatype SSHCheckHostFunc = SSHCheckHostFunc nat

text \<open>
  Modelled from the spec: the \<^verbatim>\<open>Authority\<close> struct is declared in authority/authority.go,
  which is not among the sources. The fields are the ones options.go assigns, typed as the
  option constructors' parameters; a \<^verbatim>\<open>nil\<close> interface, pointer or func is \<open>None\<close>.
\<close>

record Authority =
  db :: "AuthDB option"
  keyManager :: "KeyManager option"
  x509Issuer :: "x509_Certificate option"
  x509Signer :: "Signer option"
  sshCAUserCertSignKey :: "SSHSigner option"
  sshCAHostCertSignKey :: "SSHSigner option"
  sshCAUserCerts :: "PublicKey list"
  sshCAHostCerts :: "PublicKey list"
  sshCAUserFederatedCerts :: "PublicKey list"
  sshCAHostFederatedCerts :: "PublicKey list"
  rootX509Certs :: "x509_Certificate list"
  federatedX509Certs :: "x509_Certificate list"
  getIdentityFunc :: "GetIdentityFunc option"
  sshBastionFunc :: "SSHBastionFunc option"
  sshGetHostsFunc :: "SSHGetHostsFunc option"
  sshCheckHostFunc :: "SSHCheckHostFunc option"

text \<open>
  The library functions options.go calls, as parameters:
  \<^verbatim>\<open>ssh.NewSignerFromSigner\<close>, the \<^verbatim>\<open>PublicKey()\<close> method of an \<^verbatim>\<open>ssh.Signer\<close>,
  \<^verbatim>\<open>pem.Decode\<close> (a block or \<^verbatim>\<open>nil\<close>, and the rest of the input) and
  \<^verbatim>\<open>x509.ParseCertificate\<close>.
\<close>

record pem_Block =
  Type :: string
  Headers :: "string \<rightharpoonup> string"
  Bytes :: "byte list"

record options_lib =
  NewSignerFromSigner :: "Signer \<Rightarrow> error + SSHSigner"
  SignerPublicKey :: "SSHSigner \<Rightarrow> PublicKey"
  pem_Decode :: "byte list \<Rightarrow> pem_Block option \<times> byte list"
  x509_ParseCertificate :: "byte list \<Rightarrow> error + x509_Certificate"

text \<open>\<^verbatim>\<open>type Option func(*Authority) error\<close>: the mutated Authority, or the error.\<close>

type_synonym Option = "Authority \<Rightarrow> error + Authority"

subsection \<open>The option constructors\<close>

definition WithDatabase :: "AuthDB option \<Rightarrow> Option" where
  "WithDatabase d = (\<lambda>a. Inr (a\<lparr>db := d\<rparr>))"

definition WithGetIdentityFunc :: "GetIdentityFunc option \<Rightarrow> Option" where
  "WithGetIdentityFunc fn = (\<lambda>a. Inr (a\<lparr>getIdentityFunc := fn\<rparr>))"

definition WithSSHBastionFunc :: "SSHBastionFunc option \<Rightarrow> Option" where
  "WithSSHBastionFunc fn = (\<lambda>a. Inr (a\<lparr>sshBastionFunc := fn\<rparr>))"

definition WithSSHGetHosts :: "SSHGetHostsFunc option \<Rightarrow> Option" where
  "WithSSHGetHosts fn = (\<lambda>a. Inr (a\<lparr>sshGetHostsFunc := fn\<rparr>))"

definition WithSSHCheckHost :: "SSHCheckHostFunc option \<Rightarrow> Option" where
  "WithSSHCheckHost fn = (\<lambda>a. Inr (a\<lparr>sshCheckHostFunc := fn\<rparr>))"

definition WithKeyManager :: "KeyManager option \<Rightarrow> Option" where
  "WithKeyManager k = (\<lambda>a. Inr (a\<lparr>keyManager := k\<rparr>))"

definition WithX509Signer :: "x509_Certificate option \<Rightarrow> Signer option \<Rightarrow> Option" where
  "WithX509Signer crt s = (\<lambda>a. Inr (a\<lparr>x509Issuer := crt, x509Signer := s\<rparr>))"

definition WithSSHUserSigner :: "options_lib \<Rightarrow> Signer \<Rightarrow> Option" where
  "WithSSHUserSigner lib s = (\<lambda>a.
     case NewSignerFromSigner lib s of
       Inl err \<Rightarrow> Inl (ErrorWrap err ''error creating ssh user signer'')
     | Inr signer \<Rightarrow>
         let pub = SignerPublicKey lib signer in
         Inr (a\<lparr>sshCAUserCertSignKey := Some signer,
                sshCAUserCerts := sshCAUserCerts a @ [pub],
                sshCAUserFederatedCerts := sshCAUserFederatedCerts a @ [pub]\<rparr>))"

definition WithSSHHostSigner :: "options_lib \<Rightarrow> Signer \<Rightarrow> Option" where
  "WithSSHHostSigner lib s = (\<lambda>a.
     case NewSignerFromSigner lib s of
       Inl err \<Rightarrow> Inl (ErrorWrap err ''error creating ssh host signer'')
     | Inr signer \<Rightarrow>
         let pub = SignerPublicKey lib signer in
         Inr (a\<lparr>sshCAHostCertSignKey := Some signer,
                sshCAHostCerts := sshCAHostCerts a @ [pub],
                sshCAHostFederatedCerts := sshCAHostFederatedCerts a @ [pub]\<rparr>))"

definition WithX509RootCerts :: "x509_Certificate list \<Rightarrow> Option" where
  "WithX509RootCerts rootCerts = (\<lambda>a. Inr (a\<lparr>rootX509Certs := rootCerts\<rparr>))"

definition WithX509FederatedCerts :: "x509_Certificate list \<Rightarrow> Option" where
  "WithX509FederatedCerts certs = (\<lambda>a. Inr (a\<lparr>federatedX509Certs := certs\<rparr>))"

text \<open>
  The loop of \<^verbatim>\<open>readCertificateBundle\<close>, with the slice \<^verbatim>\<open>pemCerts\<close> and the accumulator
  \<^verbatim>\<open>certs\<close> as arguments. Whether it ends depends on \<^verbatim>\<open>pem.Decode\<close> consuming input, so
  the result is an \<open>option\<close>: \<open>None\<close> is a loop that never returns.
\<close>

partial_function (option) readCertificateBundle_loop ::
  "options_lib \<Rightarrow> byte list \<Rightarrow> x509_Certificate list \<Rightarrow> (error + x509_Certificate list) option"
where
  "readCertificateBundle_loop lib pemCerts certs =
     (if length pemCerts > 0 then
        (case pem_Decode lib pemCerts of
           (None, rest) \<Rightarrow> Some (Inr certs)
         | (Some block, rest) \<Rightarrow>
             if Type block \<noteq> ''CERTIFICATE'' \<or> dom (Headers block) \<noteq> {} then
               readCertificateBundle_loop lib rest certs
             else
               (case x509_ParseCertificate lib (Bytes block) of
                  Inl err \<Rightarrow> Some (Inl err)
                | Inr cert \<Rightarrow> readCertificateBundle_loop lib rest (certs @ [cert])))
      else Some (Inr certs))"

definition readCertificateBundle ::
  "options_lib \<Rightarrow> byte list \<Rightarrow> (error + x509_Certificate list) option" where
  "readCertificateBundle lib pemCerts = readCertificateBundle_loop lib pemCerts []"

definition WithX509RootBundle ::
  "options_lib \<Rightarrow> byte list \<Rightarrow> Authority \<Rightarrow> (error + Authority) option" where
  "WithX509RootBundle lib pemCerts = (\<lambda>a.
     case readCertificateBundle lib pemCerts of
       None \<Rightarrow> None
     | Some (Inl err) \<Rightarrow> Some (Inl err)
     | Some (Inr certs) \<Rightarrow> Some (Inr (a\<lparr>rootX509Certs := certs\<rparr>)))"

definition WithX509FederatedBundle ::
  "options_lib \<Rightarrow> byte list \<Rightarrow> Authority \<Rightarrow> (error + Authority) option" where
  "WithX509FederatedBundle lib pemCerts = (\<lambda>a.
     case readCertificateBundle lib pemCerts of
       None \<Rightarrow> None
     | Some (Inl err) \<Rightarrow> Some (Inl err)
     | Some (Inr certs) \<Rightarrow> Some (Inr (a\<lparr>federatedX509Certs := certs\<rparr>)))"

text \<open>
  Modelled from the spec: the builder that runs the options (\<^verbatim>\<open>authority.New\<close>, not among the
  sources) applies the mutators in the caller's order, and any mutator error aborts the
  entire build.
\<close>

fun applyOptions :: "Option list \<Rightarrow> Authority \<Rightarrow> error + Authority" where
  "applyOptions [] a = Inr a"
| "applyOptions (fn # opts) a =
     (case fn a of Inl err \<Rightarrow> Inl err | Inr a' \<Rightarrow> applyOptions opts a')"

subsection \<open>Vocabulary for the properties of options.go\<close>

text \<open>
  The PEM blocks of an input, in input order: what repeated calls of \<^verbatim>\<open>pem.Decode\<close> yield
  until the input is used up or no further block is found.
\<close>

inductive pemBlocks :: "options_lib \<Rightarrow> byte list \<Rightarrow> pem_Block list \<Rightarrow> bool"
  for lib :: options_lib
where
  pemBlocks_empty: "pemBlocks lib [] []"
| pemBlocks_none: "pemCerts \<noteq> [] \<Longrightarrow> fst (pem_Decode lib pemCerts) = None \<Longrightarrow> pemBlocks lib pemCerts []"
| pemBlocks_block:
    "pemCerts \<noteq> [] \<Longrightarrow> pem_Decode lib pemCerts = (Some block, rest) \<Longrightarrow> pemBlocks lib rest blocks
       \<Longrightarrow> pemBlocks lib pemCerts (block # blocks)"

code_pred (modes: i \<Rightarrow> i \<Rightarrow> o \<Rightarrow> bool, i \<Rightarrow> i \<Rightarrow> i \<Rightarrow> bool) pemBlocks .

text \<open>A block that the bundle reader keeps: typed CERTIFICATE, with no PEM headers.\<close>

definition acceptedBlock :: "pem_Block \<Rightarrow> bool" where
  "acceptedBlock block = (Type block = ''CERTIFICATE'' \<and> dom (Headers block) = {})"

text \<open>\<^verbatim>\<open>pem.Decode\<close> returns a shorter rest whenever it returns a block.\<close>

definition decodeConsumes :: "options_lib \<Rightarrow> bool" where
  "decodeConsumes lib =
     (\<forall>pemCerts block rest. pem_Decode lib pemCerts = (Some block, rest) \<longrightarrow> length rest < length pemCerts)"

section \<open>api/ssh.go\<close>

subsection \<open>Collaborators of the handlers\<close>

text \<open>
  Modelled from the spec: the provisioner package (not among the sources) names the two
  certificate types \<open>user\<close> and \<open>host\<close> and the method markers \<^verbatim>\<open>SSHSignMethod\<close> and
  \<^verbatim>\<open>SignMethod\<close>; a context carries a method marker and a \<^verbatim>\<open>SkipTokenReuse\<close> marker, set by
  \<^verbatim>\<open>provisioner.NewContextWithMethod\<close> and \<^verbatim>\<open>authority.NewContextWithSkipTokenReuse\<close>.
\<close>

definition SSHUserCert :: string where "SSHUserCert = ''user''"
definition SSHHostCert :: string where "SSHHostCert = ''host''"

datatype Method = SignMethod | SSHSignMethod

record Context =
  ctx_method :: "Method option"
  skipTokenReuse :: bool

definition NewContextWithMethod :: "Context \<Rightarrow> Method \<Rightarrow> Context" where
  "NewContextWithMethod ctx m = ctx\<lparr>ctx_method := Some m\<rparr>"

definition NewContextWithSkipTokenReuse :: "Context \<Rightarrow> Context" where
  "NewContextWithSkipTokenReuse ctx = ctx\<lparr>skipTokenReuse := True\<rparr>"

text \<open>
  \<^verbatim>\<open>provisioner.TimeDuration\<close> (an absolute time or a duration), the zero
  \<^verbatim>\<open>provisioner.Options{}\<close>, a PKCS#10 request, and \<^verbatim>\<open>provisioner.SSHOptions\<close> with its
  fields prefixed \<open>opt_\<close>.
\<close>

datatype TimeDuration = TimeDuration "time option" int

datatype provisioner_Options = provisioner_Options_zero

datatype x509_CertificateRequest = x509_CertificateRequest (csrRaw: "byte list")

record SSHOptions =
  opt_CertType :: string
  opt_KeyID :: string
  opt_Principals :: "string list"
  opt_ValidAfter :: TimeDuration
  opt_ValidBefore :: TimeDuration

text \<open>
  \<^verbatim>\<open>identityModifier\<close>, the sign option of ssh.go, beside the sign options that
  \<^verbatim>\<open>Authorize\<close> returns, which are opaque values of a type \<open>'o\<close>.
\<close>

datatype identityModifier = identityModifier (modNotBefore: time) (modNotAfter: time)

datatype 'o SignOption = ProvisionerOption 'o | IdentityModifier identityModifier

text \<open>\<^verbatim>\<open>authority.SSHKeys\<close>, fields prefixed \<open>keys_\<close>.\<close>

record SSHKeys =
  keys_UserKeys :: "PublicKey list"
  keys_HostKeys :: "PublicKey list"

text \<open>
  The methods of \<^verbatim>\<open>h.Authority\<close> that the handlers call. The interface is implemented
  outside ssh.go and may keep state (used tokens, a database), so each method takes the
  authority's state \<open>'s\<close> and returns the new one beside its result. A method that returns
  no error returns a non-nil value.
\<close>

record ('s, 'o) Authority_iface =
  Authorize :: "Context \<Rightarrow> string \<Rightarrow> 's \<Rightarrow> (error + 'o SignOption list) \<times> 's"
  SignSSH :: "Context \<Rightarrow> PublicKey \<Rightarrow> SSHOptions \<Rightarrow> 'o SignOption list \<Rightarrow> 's
     \<Rightarrow> (error + ssh_Certificate) \<times> 's"
  SignSSHAddUser :: "Context \<Rightarrow> PublicKey \<Rightarrow> ssh_Certificate \<Rightarrow> 's
     \<Rightarrow> (error + ssh_Certificate) \<times> 's"
  Sign :: "x509_CertificateRequest \<Rightarrow> provisioner_Options \<Rightarrow> 'o SignOption list \<Rightarrow> 's
     \<Rightarrow> (error + x509_Certificate list) \<times> 's"
  GetSSHRoots :: "Context \<Rightarrow> 's \<Rightarrow> (error + SSHKeys) \<times> 's"
  GetSSHFederation :: "Context \<Rightarrow> 's \<Rightarrow> (error + SSHKeys) \<times> 's"

text \<open>
  The calls a handler makes on the Authority, in order, each with its arguments and its
  result: the externally visible effects of a handler run.
\<close>

datatype 'o call =
    Authorize_call Context string "error + 'o SignOption list"
  | SignSSH_call Context PublicKey SSHOptions "'o SignOption list" "error + ssh_Certificate"
  | SignSSHAddUser_call Context PublicKey ssh_Certificate "error + ssh_Certificate"
  | Sign_call x509_CertificateRequest provisioner_Options "'o SignOption list"
      "error + x509_Certificate list"
  | GetSSHRoots_call Context "error + SSHKeys"
  | GetSSHFederation_call Context "error + SSHKeys"

text \<open>The world of a handler run: the authority's state and the calls made so far.\<close>

type_synonym ('s, 'o) world = "'s \<times> 'o call list"

definition h_Authorize ::
  "('s, 'o) Authority_iface \<Rightarrow> Context \<Rightarrow> string \<Rightarrow> ('s, 'o) world
     \<Rightarrow> (error + 'o SignOption list) \<times> ('s, 'o) world" where
  "h_Authorize auth ctx ott w =
     (case w of (s, calls) \<Rightarrow> case Authorize auth ctx ott s of
        (r, s') \<Rightarrow> (r, (s', calls @ [Authorize_call ctx ott r])))"

definition h_SignSSH ::
  "('s, 'o) Authority_iface \<Rightarrow> Context \<Rightarrow> PublicKey \<Rightarrow> SSHOptions \<Rightarrow> 'o SignOption list
     \<Rightarrow> ('s, 'o) world \<Rightarrow> (error + ssh_Certificate) \<times> ('s, 'o) world" where
  "h_SignSSH auth ctx key opts signOpts w =
     (case w of (s, calls) \<Rightarrow> case SignSSH auth ctx key opts signOpts s of
        (r, s') \<Rightarrow> (r, (s', calls @ [SignSSH_call ctx key opts signOpts r])))"

definition h_SignSSHAddUser ::
  "('s, 'o) Authority_iface \<Rightarrow> Context \<Rightarrow> PublicKey \<Rightarrow> ssh_Certificate
     \<Rightarrow> ('s, 'o) world \<Rightarrow> (error + ssh_Certificate) \<times> ('s, 'o) world" where
  "h_SignSSHAddUser auth ctx key cert w =
     (case w of (s, calls) \<Rightarrow> case SignSSHAddUser auth ctx key cert s of
        (r, s') \<Rightarrow> (r, (s', calls @ [SignSSHAddUser_call ctx key cert r])))"

definition h_Sign ::
  "('s, 'o) Authority_iface \<Rightarrow> x509_CertificateRequest \<Rightarrow> provisioner_Options
     \<Rightarrow> 'o SignOption list \<Rightarrow> ('s, 'o) world
     \<Rightarrow> (error + x509_Certificate list) \<times> ('s, 'o) world" where
  "h_Sign auth cr opts signOpts w =
     (case w of (s, calls) \<Rightarrow> case Sign auth cr opts signOpts s of
        (r, s') \<Rightarrow> (r, (s', calls @ [Sign_call cr opts signOpts r])))"

definition h_GetSSHRoots ::
  "('s, 'o) Authority_iface \<Rightarrow> Context \<Rightarrow> ('s, 'o) world \<Rightarrow> (error + SSHKeys) \<times> ('s, 'o) world" where
  "h_GetSSHRoots auth ctx w =
     (case w of (s, calls) \<Rightarrow> case GetSSHRoots auth ctx s of
        (r, s') \<Rightarrow> (r, (s', calls @ [GetSSHRoots_call ctx r])))"

definition h_GetSSHFederation ::
  "('s, 'o) Authority_iface \<Rightarrow> Context \<Rightarrow> ('s, 'o) world \<Rightarrow> (error + SSHKeys) \<times> ('s, 'o) world" where
  "h_GetSSHFederation auth ctx w =
     (case w of (s, calls) \<Rightarrow> case GetSSHFederation auth ctx s of
        (r, s') \<Rightarrow> (r, (s', calls @ [GetSSHFederation_call ctx r])))"

text \<open>
  The library functions ssh.go calls, as parameters: \<^verbatim>\<open>ssh.ParsePublicKey\<close>, the
  \<^verbatim>\<open>Marshal()\<close> method of a public key, \<^verbatim>\<open>CheckSignature()\<close> of a certificate request
  (\<open>None\<close> is the nil error), \<^verbatim>\<open>base64.StdEncoding\<close>, \<^verbatim>\<open>json.Unmarshal\<close> into a fresh
  string variable, and the \<^verbatim>\<open>%T\<close> formatting of a key's dynamic type.
\<close>

record api_lib =
  ssh_ParsePublicKey :: "byte list \<Rightarrow> error + PublicKey"
  ssh_Marshal :: "PublicKey \<Rightarrow> byte list"
  CheckSignature :: "x509_CertificateRequest \<Rightarrow> error option"
  base64_EncodeToString :: "byte list \<Rightarrow> string"
  base64_DecodeString :: "string \<Rightarrow> error + byte list"
  json_Unmarshal_string :: "string \<Rightarrow> error + string"
  fmt_T :: "PublicKey \<Rightarrow> string"

text \<open>
  Modelled from the spec: the errs package (not among the sources) pairs an error with the
  HTTP status it is reported under: 400 bad request, 401 unauthorized, 403 forbidden,
  404 not found, 500 internal server error.
\<close>

datatype errs_Error = errs_Error (Status: nat) (Err: error)

definition errs_Wrap :: "nat \<Rightarrow> error \<Rightarrow> string \<Rightarrow> errs_Error" where
  "errs_Wrap status err msg = errs_Error status (ErrorWrap err msg)"

definition BadRequestErr :: "error \<Rightarrow> errs_Error" where
  "BadRequestErr err = errs_Error 400 err"

definition UnauthorizedErr :: "error \<Rightarrow> errs_Error" where
  "UnauthorizedErr err = errs_Error 401 err"

definition ForbiddenErr :: "error \<Rightarrow> errs_Error" where
  "ForbiddenErr err = errs_Error 403 err"

definition InternalServerErr :: "error \<Rightarrow> errs_Error" where
  "InternalServerErr err = errs_Error 500 err"

definition NotFound :: "string \<Rightarrow> errs_Error" where
  "NotFound msg = errs_Error 404 (ErrorNew msg)"

text \<open>
  What a handler writes to the \<^verbatim>\<open>http.ResponseWriter\<close>: an error (\<^verbatim>\<open>WriteError\<close>) or a
  JSON body with a status (\<^verbatim>\<open>JSONStatus\<close>; \<^verbatim>\<open>JSON\<close> is status 200).
\<close>

datatype 'a written = WriteError errs_Error | JSONStatus 'a nat

definition JSON :: "'a \<Rightarrow> 'a written" where
  "JSON v = JSONStatus v 200"

definition StatusCreated :: nat where "StatusCreated = 201"
definition StatusBadRequest :: nat where "StatusBadRequest = 400"

subsection \<open>Request and response bodies\<close>

text \<open>
  \<^verbatim>\<open>SSHSignRequest\<close>. Fields that share a name with a field of \<^verbatim>\<open>ssh.Certificate\<close> are
  prefixed \<open>req_\<close>. \<^verbatim>\<open>AddUserPublicKey\<close> is compared with \<^verbatim>\<open>nil\<close> by the handler, so \<open>None\<close>
  is the nil slice; \<^verbatim>\<open>IdentityCSR\<close> wraps a pointer, \<open>None\<close> when nil.
\<close>

record SSHSignRequest =
  PublicKey :: "byte list"
  OTT :: string
  req_CertType :: string
  Principals :: "string list"
  req_ValidAfter :: TimeDuration
  req_ValidBefore :: TimeDuration
  AddUserPublicKey :: "byte list option"
  KeyID :: string
  IdentityCSR :: "x509_CertificateRequest option"

text \<open>\<^verbatim>\<open>SSHCertificate\<close> and \<^verbatim>\<open>SSHPublicKey\<close> wrap a value that may be nil.\<close>

datatype SSHCertificate = SSHCertificate (ssh_cert: "ssh_Certificate option")

datatype SSHPublicKey = SSHPublicKey (ssh_key: "PublicKey option")

text \<open>
  Modelled from the spec: \<^verbatim>\<open>api.Certificate\<close> and \<^verbatim>\<open>certChainToPEM\<close> (api/api.go, not among
  the sources) turn the signed chain into the list of PEM-encoded certificates of the
  response, in the same order, leaf first.
\<close>

datatype api_Certificate = api_Certificate x509_Certificate

definition certChainToPEM :: "x509_Certificate list \<Rightarrow> api_Certificate list" where
  "certChainToPEM certChain = map api_Certificate certChain"

record SSHSignResponse =
  Certificate :: SSHCertificate
  AddUserCertificate :: "SSHCertificate option"
  IdentityCertificate :: "api_Certificate list"

record SSHRootsResponse =
  UserKeys :: "SSHPublicKey list"
  HostKeys :: "SSHPublicKey list"

subsection \<open>Validation and the JSON codec\<close>

definition Validate :: "api_lib \<Rightarrow> SSHSignRequest \<Rightarrow> error option" where
  "Validate lib s =
     (if req_CertType s \<noteq> '''' \<and> req_CertType s \<noteq> SSHUserCert \<and> req_CertType s \<noteq> SSHHostCert then
        Some (ErrorNew (''unknown certType '' @ req_CertType s))
      else if length (PublicKey s) = 0 then
        Some (ErrorNew ''missing or empty publicKey'')
      else if length (OTT s) = 0 then
        Some (ErrorNew ''missing or empty ott'')
      else
        (case IdentityCSR s of
           None \<Rightarrow> None
         | Some cr \<Rightarrow>
             (case CheckSignature lib cr of
                Some err \<Rightarrow> Some (ErrorWrap err ''invalid identityCSR'')
              | None \<Rightarrow> None)))"

text \<open>
  The marshalers return the JSON text and a nil error; the unmarshalers return the new value
  of the receiver, or the error (the receiver is then unchanged).
\<close>

definition quoted :: "string \<Rightarrow> string" where
  "quoted s = [CHR 0x22] @ s @ [CHR 0x22]"

definition SSHCertificate_MarshalJSON :: "api_lib \<Rightarrow> SSHCertificate \<Rightarrow> error + string" where
  "SSHCertificate_MarshalJSON lib c =
     (case ssh_cert c of
        None \<Rightarrow> Inr ''null''
      | Some cert \<Rightarrow>
          let s = base64_EncodeToString lib (ssh_Marshal lib (CertificateKey cert)) in
          Inr (quoted s))"

definition SSHCertificate_UnmarshalJSON :: "api_lib \<Rightarrow> string \<Rightarrow> error + SSHCertificate" where
  "SSHCertificate_UnmarshalJSON lib data =
     (case json_Unmarshal_string lib data of
        Inl err \<Rightarrow> Inl (ErrorWrap err ''error decoding certificate'')
      | Inr s \<Rightarrow>
          if s = '''' then Inr (SSHCertificate None)
          else
            (case base64_DecodeString lib s of
               Inl err \<Rightarrow> Inl (ErrorWrap err ''error decoding ssh certificate'')
             | Inr certData \<Rightarrow>
                 (case ssh_ParsePublicKey lib certData of
                    Inl err \<Rightarrow> Inl (ErrorWrap err ''error parsing ssh certificate'')
                  | Inr pub \<Rightarrow>
                      (case pub of
                         CertificateKey cert \<Rightarrow> Inr (SSHCertificate (Some cert))
                       | PlainKey k \<Rightarrow>
                           Inl (ErrorNew (''error decoding ssh certificate: '' @ fmt_T lib pub
                                  @ '' is not an *ssh.Certificate''))))))"

text \<open>
  \<^verbatim>\<open>SSHPublicKey.MarshalJSON\<close> has a pointer receiver: \<open>None\<close> is the nil pointer.
\<close>

definition SSHPublicKey_MarshalJSON :: "api_lib \<Rightarrow> SSHPublicKey option \<Rightarrow> error + string" where
  "SSHPublicKey_MarshalJSON lib p =
     (case p of
        None \<Rightarrow> Inr ''null''
      | Some p' \<Rightarrow>
          (case ssh_key p' of
             None \<Rightarrow> Inr ''null''
           | Some key \<Rightarrow>
               let s = base64_EncodeToString lib (ssh_Marshal lib key) in
               Inr (quoted s)))"

definition SSHPublicKey_UnmarshalJSON :: "api_lib \<Rightarrow> string \<Rightarrow> error + SSHPublicKey" where
  "SSHPublicKey_UnmarshalJSON lib data =
     (case json_Unmarshal_string lib data of
        Inl err \<Rightarrow> Inl (ErrorWrap err ''error decoding ssh public key'')
      | Inr s \<Rightarrow>
          if s = '''' then Inr (SSHPublicKey None)
          else
            (case base64_DecodeString lib s of
               Inl err \<Rightarrow> Inl (ErrorWrap err ''error decoding ssh public key'')
             | Inr data' \<Rightarrow>
                 (case ssh_ParsePublicKey lib data' of
                    Inl err \<Rightarrow> Inl (ErrorWrap err ''error parsing ssh public key'')
                  | Inr pub \<Rightarrow> Inr (SSHPublicKey (Some pub)))))"

subsection \<open>The identity modifier\<close>

text \<open>
  \<^verbatim>\<open>Enforce\<close> assigns two fields of the certificate it is given and returns nil: the result
  is the returned error and the certificate after the call.
\<close>

definition Enforce ::
  "identityModifier \<Rightarrow> 'x x509_Certificate_scheme \<Rightarrow> error option \<times> 'x x509_Certificate_scheme" where
  "Enforce m cert = (None, cert\<lparr>NotBefore := modNotBefore m, NotAfter := modNotAfter m\<rparr>)"

subsection \<open>The handlers\<close>

text \<open>
  \<^verbatim>\<open>SSHSign\<close>. The argument \<open>readJSON\<close> is the outcome of \<^verbatim>\<open>ReadJSON(r.Body, &body)\<close>, \<open>rctx\<close>
  is \<^verbatim>\<open>r.Context()\<close>; \<^verbatim>\<open>logOtt\<close> only logs. The function is cut in three at the two
  conditional blocks: \<open>SSHSign_identity\<close> is the identity block and the response,
  \<open>SSHSign_addUser\<close> the add-user block, \<open>SSHSign\<close> everything before.
\<close>

definition SSHSign_respond ::
  "ssh_Certificate \<Rightarrow> SSHCertificate option \<Rightarrow> api_Certificate list \<Rightarrow> SSHSignResponse written" where
  "SSHSign_respond cert addUserCertificate identityCertificate =
     JSONStatus \<lparr>Certificate = SSHCertificate (Some cert),
                 AddUserCertificate = addUserCertificate,
                 IdentityCertificate = identityCertificate\<rparr> StatusCreated"

definition SSHSign_identity ::
  "('s, 'o) Authority_iface \<Rightarrow> Context \<Rightarrow> SSHSignRequest \<Rightarrow> ssh_Certificate
     \<Rightarrow> SSHCertificate option \<Rightarrow> ('s, 'o) world \<Rightarrow> SSHSignResponse written \<times> ('s, 'o) world" where
  "SSHSign_identity auth rctx body cert addUserCertificate w =
     (case IdentityCSR body of
        None \<Rightarrow> (SSHSign_respond cert addUserCertificate [], w)
      | Some cr \<Rightarrow>
          let ctx = NewContextWithSkipTokenReuse rctx;
              ctx = NewContextWithMethod ctx SignMethod in
          (case h_Authorize auth ctx (OTT body) w of
             (Inl err, w1) \<Rightarrow> (WriteError (UnauthorizedErr err), w1)
           | (Inr signOpts, w1) \<Rightarrow>
               let signOpts = signOpts @
                     [IdentityModifier (identityModifier
                        (time_Unix (ValidAfter cert) 0)
                        (time_Unix (ValidBefore cert) 0))] in
               (case h_Sign auth cr provisioner_Options_zero signOpts w1 of
                  (Inl err, w2) \<Rightarrow> (WriteError (ForbiddenErr err), w2)
                | (Inr certChain, w2) \<Rightarrow>
                    (SSHSign_respond cert addUserCertificate (certChainToPEM certChain), w2))))"

definition SSHSign_addUser ::
  "('s, 'o) Authority_iface \<Rightarrow> Context \<Rightarrow> Context \<Rightarrow> SSHSignRequest \<Rightarrow> PublicKey option
     \<Rightarrow> ssh_Certificate \<Rightarrow> ('s, 'o) world \<Rightarrow> SSHSignResponse written \<times> ('s, 'o) world" where
  "SSHSign_addUser auth rctx ctx body addUserPublicKey cert w =
     (if addUserPublicKey \<noteq> None \<and> CertType cert = ssh_UserCert \<and> length (ValidPrincipals cert) = 1 then
        (case h_SignSSHAddUser auth ctx (the addUserPublicKey) cert w of
           (Inl err, w1) \<Rightarrow> (WriteError (ForbiddenErr err), w1)
         | (Inr addUserCert, w1) \<Rightarrow>
             SSHSign_identity auth rctx body cert (Some (SSHCertificate (Some addUserCert))) w1)
      else SSHSign_identity auth rctx body cert None w)"

definition SSHSign ::
  "api_lib \<Rightarrow> ('s, 'o) Authority_iface \<Rightarrow> Context \<Rightarrow> error + SSHSignRequest
     \<Rightarrow> ('s, 'o) world \<Rightarrow> SSHSignResponse written \<times> ('s, 'o) world" where
  "SSHSign lib auth rctx readJSON w =
     (case readJSON of
        Inl err \<Rightarrow> (WriteError (errs_Wrap StatusBadRequest err ''error reading request body''), w)
      | Inr body \<Rightarrow>
     (case Validate lib body of
        Some err \<Rightarrow> (WriteError (BadRequestErr err), w)
      | None \<Rightarrow>
     (case ssh_ParsePublicKey lib (PublicKey body) of
        Inl err \<Rightarrow> (WriteError (errs_Wrap StatusBadRequest err ''error parsing publicKey''), w)
      | Inr publicKey \<Rightarrow>
     (case (case AddUserPublicKey body of
              None \<Rightarrow> Inr None
            | Some bytes \<Rightarrow>
                (case ssh_ParsePublicKey lib bytes of
                   Inl err \<Rightarrow> Inl err
                 | Inr key \<Rightarrow> Inr (Some key))) of
        Inl err \<Rightarrow> (WriteError (errs_Wrap StatusBadRequest err ''error parsing addUserPublicKey''), w)
      | Inr addUserPublicKey \<Rightarrow>
          let opts = \<lparr>opt_CertType = req_CertType body,
                      opt_KeyID = KeyID body,
                      opt_Principals = Principals body,
                      opt_ValidAfter = req_ValidAfter body,
                      opt_ValidBefore = req_ValidBefore body\<rparr>;
              ctx = NewContextWithMethod rctx SSHSignMethod in
          (case h_Authorize auth ctx (OTT body) w of
             (Inl err, w1) \<Rightarrow> (WriteError (UnauthorizedErr err), w1)
           | (Inr signOpts, w1) \<Rightarrow>
               (case h_SignSSH auth ctx publicKey opts signOpts w1 of
                  (Inl err, w2) \<Rightarrow> (WriteError (ForbiddenErr err), w2)
                | (Inr cert, w2) \<Rightarrow>
                    SSHSign_addUser auth rctx ctx body addUserPublicKey cert w2))))))"

text \<open>
  The two \<^verbatim>\<open>range\<close> loops of \<^verbatim>\<open>SSHRoots\<close> and \<^verbatim>\<open>SSHFederation\<close>: each key is wrapped and
  appended to the response list.
\<close>

fun appendKeys :: "SSHPublicKey list \<Rightarrow> PublicKey list \<Rightarrow> SSHPublicKey list" where
  "appendKeys acc [] = acc"
| "appendKeys acc (k # ks) = appendKeys (acc @ [SSHPublicKey (Some k)]) ks"

definition SSHRoots ::
  "('s, 'o) Authority_iface \<Rightarrow> Context \<Rightarrow> ('s, 'o) world
     \<Rightarrow> SSHRootsResponse written \<times> ('s, 'o) world" where
  "SSHRoots auth rctx w =
     (case h_GetSSHRoots auth rctx w of
        (Inl err, w1) \<Rightarrow> (WriteError (InternalServerErr err), w1)
      | (Inr keys, w1) \<Rightarrow>
          if length (keys_HostKeys keys) = 0 \<and> length (keys_UserKeys keys) = 0 then
            (WriteError (NotFound ''no keys found''), w1)
          else
            let resp = \<lparr>UserKeys = [], HostKeys = []\<rparr>;
                resp = resp\<lparr>HostKeys := appendKeys (HostKeys resp) (keys_HostKeys keys)\<rparr>;
                resp = resp\<lparr>UserKeys := appendKeys (UserKeys resp) (keys_UserKeys keys)\<rparr> in
            (JSON resp, w1))"

definition SSHFederation ::
  "('s, 'o) Authority_iface \<Rightarrow> Context \<Rightarrow> ('s, 'o) world
     \<Rightarrow> SSHRootsResponse written \<times> ('s, 'o) world" where
  "SSHFederation auth rctx w =
     (case h_GetSSHFederation auth rctx w of
        (Inl err, w1) \<Rightarrow> (WriteError (InternalServerErr err), w1)
      | (Inr keys, w1) \<Rightarrow>
          if length (keys_HostKeys keys) = 0 \<and> length (keys_UserKeys keys) = 0 then
            (WriteError (NotFound ''no keys found''), w1)
          else
            let resp = \<lparr>UserKeys = [], HostKeys = []\<rparr>;
                resp = resp\<lparr>HostKeys := appendKeys (HostKeys resp) (keys_HostKeys keys)\<rparr>;
                resp = resp\<lparr>UserKeys := appendKeys (UserKeys resp) (keys_UserKeys keys)\<rparr> in
            (JSON resp, w1))"

subsection \<open>Vocabulary for the properties of ssh.go\<close>

text \<open>The \<^verbatim>\<open>Authorize\<close> calls of a run, in order.\<close>

fun isAuthorize :: "'o call \<Rightarrow> bool" where
  "isAuthorize (Authorize_call ctx ott r) = True"
| "isAuthorize c = False"

definition authorizeCalls :: "'o call list \<Rightarrow> 'o call list" where
  "authorizeCalls calls = filter isAuthorize calls"

text \<open>
  The identity block of a run is reached when \<^verbatim>\<open>SignSSH\<close> has returned a certificate and
  no \<^verbatim>\<open>SignSSHAddUser\<close> call has failed.
\<close>

fun isSignedSSH :: "'o call \<Rightarrow> bool" where
  "isSignedSSH (SignSSH_call ctx key opts signOpts (Inr cert)) = True"
| "isSignedSSH c = False"

fun isFailedAddUser :: "'o call \<Rightarrow> bool" where
  "isFailedAddUser (SignSSHAddUser_call ctx key cert (Inl err)) = True"
| "isFailedAddUser c = False"

definition reachesIdentity :: "'o call list \<Rightarrow> bool" where
  "reachesIdentity calls =
     (list_ex isSignedSSH calls \<and> \<not> list_ex isFailedAddUser calls)"


text \<open>
  The contracts of the libraries under the codec, each at one value.
  \<open>wireRoundTrip\<close>: \<^verbatim>\<open>ssh.ParsePublicKey\<close> reads the wire form of a key back as a key of the
  same kind with the same wire form, and that wire form is not empty.
  \<open>textRoundTrip\<close>: Base64 decoding inverts encoding, the encoding of a non-empty byte
  string is not empty, and \<^verbatim>\<open>json.Unmarshal\<close> reads the quoted encoding (which needs no
  escapes) back as that string.
\<close>

definition wireRoundTrip :: "api_lib \<Rightarrow> PublicKey \<Rightarrow> bool" where
  "wireRoundTrip lib key =
     (ssh_Marshal lib key \<noteq> [] \<and>
      (\<exists>key'. ssh_ParsePublicKey lib (ssh_Marshal lib key) = Inr key' \<and>
         ssh_Marshal lib key' = ssh_Marshal lib key \<and>
         (case key of
            CertificateKey cert \<Rightarrow> (case key' of CertificateKey cert' \<Rightarrow> True | PlainKey k' \<Rightarrow> False)
          | PlainKey k \<Rightarrow> True)))"

definition textRoundTrip :: "api_lib \<Rightarrow> byte list \<Rightarrow> bool" where
  "textRoundTrip lib bytes =
     (base64_DecodeString lib (base64_EncodeToString lib bytes) = Inr bytes \<and>
      (base64_EncodeToString lib bytes = '''') = (bytes = []) \<and>
      json_Unmarshal_string lib (quoted (base64_EncodeToString lib bytes))
        = Inr (base64_EncodeToString lib bytes))"

text \<open>The wire form of what a decoder returned; \<open>None\<close> for an absent value.\<close>

definition certWire :: "api_lib \<Rightarrow> SSHCertificate \<Rightarrow> byte list option" where
  "certWire lib c = map_option (\<lambda>cert. ssh_Marshal lib (CertificateKey cert)) (ssh_cert c)"

definition keyWire :: "api_lib \<Rightarrow> SSHPublicKey \<Rightarrow> byte list option" where
  "keyWire lib p = map_option (ssh_Marshal lib) (ssh_key p)"

section \<open>Sample values\<close>

text \<open>
  A small stand-in for the libraries, used to run the definitions on concrete inputs: the
  signer with handle 0 is refused; each input byte is one PEM block (0 ends the PEM data,
  1 is a CERTIFICATE block, 3 a CERTIFICATE block with a header, anything else another
  type of block), and a payload parses as a certificate when it is the byte 1 alone.
\<close>

definition sampleKeyOf :: "nat \<Rightarrow> PublicKey" where
  "sampleKeyOf n = PlainKey (KeyData ''ssh-ed25519'' [of_nat n])"

definition sampleBlock :: "byte \<Rightarrow> string \<Rightarrow> pem_Block" where
  "sampleBlock b payloadType =
     \<lparr>Type = payloadType,
      Headers = (if b = 3 then [''Proc-Type'' \<mapsto> ''4,ENCRYPTED''] else Map.empty),
      Bytes = [b]\<rparr>"

definition sampleLib :: options_lib where
  "sampleLib =
     \<lparr>NewSignerFromSigner = (\<lambda>s. case s of Signer n \<Rightarrow>
         if n = 0 then Inl (ErrorNew ''ssh: unsupported key type'') else Inr (SSHSigner n)),
      SignerPublicKey = (\<lambda>s. case s of SSHSigner n \<Rightarrow> sampleKeyOf n),
      pem_Decode = (\<lambda>pemCerts. case pemCerts of
           [] \<Rightarrow> (None, [])
         | b # rest \<Rightarrow>
             if b = 0 then (None, pemCerts)
             else (Some (sampleBlock b (if b = 1 \<or> b = 3 \<or> b = 4 then ''CERTIFICATE'' else ''PRIVATE KEY'')), rest)),
      x509_ParseCertificate = (\<lambda>der.
         if der = [1] then Inr \<lparr>Raw = der, NotBefore = Time 0 0, NotAfter = Time 3600 0\<rparr>
         else Inl (ErrorNew ''asn1: syntax error''))\<rparr>"

definition sampleCert :: x509_Certificate where
  "sampleCert = \<lparr>Raw = [1], NotBefore = Time 0 0, NotAfter = Time 3600 0\<rparr>"

definition sampleAuthority :: Authority where
  "sampleAuthority =
     \<lparr>db = None, keyManager = None, x509Issuer = None, x509Signer = None,
      sshCAUserCertSignKey = None, sshCAHostCertSignKey = None,
      sshCAUserCerts = [sampleKeyOf 7], sshCAHostCerts = [],
      sshCAUserFederatedCerts = [sampleKeyOf 7, sampleKeyOf 8], sshCAHostFederatedCerts = [sampleKeyOf 9],
      rootX509Certs = [sampleCert], federatedX509Certs = [],
      getIdentityFunc = None, sshBastionFunc = None, sshGetHostsFunc = None,
      sshCheckHostFunc = None\<rparr>"

definition sampleAuthority2 :: Authority where
  "sampleAuthority2 =
     sampleAuthority\<lparr>sshCAUserCertSignKey := Some (SSHSigner 2),
        sshCAUserCerts := [sampleKeyOf 7, sampleKeyOf 1, sampleKeyOf 2],
        sshCAUserFederatedCerts := [sampleKeyOf 7, sampleKeyOf 8, sampleKeyOf 1, sampleKeyOf 2]\<rparr>"

definition sampleAuthority3 :: Authority where
  "sampleAuthority3 =
     sampleAuthority\<lparr>sshCAHostCertSignKey := Some (SSHSigner 4),
        sshCAHostCerts := [sampleKeyOf 3, sampleKeyOf 4],
        sshCAHostFederatedCerts := [sampleKeyOf 9, sampleKeyOf 3, sampleKeyOf 4]\<rparr>"

text \<open>
  A stand-in for the libraries of ssh.go. Wire bytes start with 1 for a plain key and 2 for
  a certificate, an empty input is a short read; a request with an empty DER body has a bad
  signature; Base64 is tabulated at the byte strings used; a JSON text is \<open>null\<close> or a
  quoted string without escapes.
\<close>

definition sampleSSHCert :: "KeyData \<Rightarrow> string \<Rightarrow> string list \<Rightarrow> ssh_Certificate" where
  "sampleSSHCert key certType principals =
     \<lparr>Nonce = [], Key = key, Serial = 1,
      CertType = (if certType = ''host'' then ssh_HostCert else ssh_UserCert),
      KeyId = ''alice@example'', ValidPrincipals = principals,
      ValidAfter = 1000, ValidBefore = 4600, Signature = []\<rparr>"

definition sampleKeyData :: "PublicKey \<Rightarrow> KeyData" where
  "sampleKeyData key = (case key of PlainKey k \<Rightarrow> k | CertificateKey c \<Rightarrow> Key c)"

definition sampleApiLib :: api_lib where
  "sampleApiLib =
     \<lparr>ssh_ParsePublicKey = (\<lambda>bytes. case bytes of
           [] \<Rightarrow> Inl (ErrorNew ''ssh: short read'')
         | b # blob \<Rightarrow>
             if b = 1 then Inr (PlainKey (KeyData ''ssh-ed25519'' blob))
             else if b = 2 then
               Inr (CertificateKey (sampleSSHCert (KeyData ''ssh-ed25519'' blob) ''user'' [''alice'']))
             else Inl (ErrorNew ''ssh: unknown key algorithm'')),
      ssh_Marshal = (\<lambda>key. case key of
           PlainKey k \<Rightarrow> 1 # keyBlob k
         | CertificateKey c \<Rightarrow> 2 # keyBlob (Key c)),
      CheckSignature = (\<lambda>cr.
         if csrRaw cr = [] then Some (ErrorNew ''x509: invalid signature'') else None),
      base64_EncodeToString = (\<lambda>bytes.
         if bytes = [2, 3] then ''AgM='' else if bytes = [1, 3] then ''AQM='' else ''''),
      base64_DecodeString = (\<lambda>s.
         if s = ''AgM='' then Inr [2, 3] else if s = ''AQM='' then Inr [1, 3]
         else Inl (ErrorNew ''illegal base64 data'')),
      json_Unmarshal_string = (\<lambda>data.
         if data = ''null'' then Inr ''''
         else (case data of
                 [] \<Rightarrow> Inl (ErrorNew ''unexpected end of JSON input'')
               | c # cs \<Rightarrow>
                   if c = CHR 0x22 \<and> cs \<noteq> [] \<and> last cs = CHR 0x22 then Inr (butlast cs)
                   else Inl (ErrorNew ''json: cannot unmarshal into Go value of type string''))),
      fmt_T = (\<lambda>key. ''*ssh.ed25519PublicKey'')\<rparr>"

text \<open>
  A stand-in Authority whose state is the list of tokens used so far. \<open>TOKEN-A\<close> is valid,
  \<open>TOKEN-S\<close> is valid for \<^verbatim>\<open>SSHSignMethod\<close> only, and a used token is refused unless the context carries the skip marker; a request
  without principals is refused by \<^verbatim>\<open>SignSSH\<close>, the principal \<open>root\<close> by
  \<^verbatim>\<open>SignSSHAddUser\<close>, a request whose DER body starts with 0 by \<^verbatim>\<open>Sign\<close>; \<^verbatim>\<open>Sign\<close>
  runs the sign options in order on the certificate and returns it before the issuer.
\<close>

fun sampleRunOptions :: "nat SignOption list \<Rightarrow> x509_Certificate \<Rightarrow> x509_Certificate" where
  "sampleRunOptions [] crt = crt"
| "sampleRunOptions (ProvisionerOption n # signOpts) crt = sampleRunOptions signOpts crt"
| "sampleRunOptions (IdentityModifier m # signOpts) crt = sampleRunOptions signOpts (snd (Enforce m crt))"

definition sampleKeys :: SSHKeys where
  "sampleKeys = \<lparr>keys_UserKeys = [sampleKeyOf 1], keys_HostKeys = [sampleKeyOf 2, sampleKeyOf 3]\<rparr>"

definition sampleAuth :: "(string list, nat) Authority_iface" where
  "sampleAuth =
     \<lparr>Authorize = (\<lambda>ctx ott used.
         if ott \<noteq> ''TOKEN-A'' \<and> ott \<noteq> ''TOKEN-S'' then (Inl (ErrorNew ''invalid token''), used)
         else if ott = ''TOKEN-S'' \<and> ctx_method ctx \<noteq> Some SSHSignMethod then
           (Inl (ErrorNew ''token not valid for this method''), used)
         else if ott \<in> set used \<and> \<not> skipTokenReuse ctx then (Inl (ErrorNew ''token already used''), used)
         else (Inr [ProvisionerOption 0], ott # used)),
      SignSSH = (\<lambda>ctx key opts signOpts used.
         if opt_Principals opts = [] then (Inl (ErrorNew ''principals cannot be empty''), used)
         else (Inr (sampleSSHCert (sampleKeyData key) (opt_CertType opts) (opt_Principals opts)), used)),
      SignSSHAddUser = (\<lambda>ctx key cert used.
         if ValidPrincipals cert = [''root''] then (Inl (ErrorNew ''principal not allowed''), used)
         else (Inr (cert\<lparr>Key := sampleKeyData key\<rparr>), used)),
      Sign = (\<lambda>cr opts signOpts used.
         if take 1 (csrRaw cr) = [0] then (Inl (ErrorNew ''certificate request denied''), used)
         else (Inr [sampleRunOptions signOpts sampleCert, sampleCert], used)),
      GetSSHRoots = (\<lambda>ctx used. (Inr sampleKeys, used)),
      GetSSHFederation = (\<lambda>ctx used. (Inr \<lparr>keys_UserKeys = [], keys_HostKeys = []\<rparr>, used))\<rparr>"

definition sampleContext :: Context where
  "sampleContext = \<lparr>ctx_method = None, skipTokenReuse = False\<rparr>"

definition sampleRequest :: SSHSignRequest where
  "sampleRequest =
     \<lparr>PublicKey = [1, 7], OTT = ''TOKEN-A'', req_CertType = ''user'', Principals = [''alice''],
      req_ValidAfter = TimeDuration None 0, req_ValidBefore = TimeDuration None 3600,
      AddUserPublicKey = Some [1, 9], KeyID = ''alice@example'',
      IdentityCSR = Some (x509_CertificateRequest [48])\<rparr>"

definition sampleOptions :: "string list \<Rightarrow> SSHOptions" where
  "sampleOptions principals =
     \<lparr>opt_CertType = ''user'', opt_KeyID = ''alice@example'', opt_Principals = principals,
      opt_ValidAfter = TimeDuration None 0, opt_ValidBefore = TimeDuration None 3600\<rparr>"

definition sampleContext1 :: Context where
  "sampleContext1 = \<lparr>ctx_method = Some SSHSignMethod, skipTokenReuse = False\<rparr>"

definition sampleContext2 :: Context where
  "sampleContext2 = \<lparr>ctx_method = Some SignMethod, skipTokenReuse = True\<rparr>"

definition sampleModifier :: "nat SignOption" where
  "sampleModifier = IdentityModifier (identityModifier (Time 1000 0) (Time 4600 0))"

definition sampleLeaf :: x509_Certificate where
  "sampleLeaf = \<lparr>Raw = [1], NotBefore = Time 1000 0, NotAfter = Time 4600 0\<rparr>"




section \<open>Properties of authority/options.go\<close>

subsection \<open>The bundle reader\<close>

lemma loop_all_parse:
  "pemBlocks lib pemCerts blocks \<Longrightarrow>
   map (\<lambda>b. x509_ParseCertificate lib (Bytes b)) (filter acceptedBlock blocks) = map Inr cs \<Longrightarrow>
   readCertificateBundle_loop lib pemCerts certs = Some (Inr (certs @ cs))"
proof (induction arbitrary: certs cs rule: pemBlocks.induct)
  case pemBlocks_empty
  then show ?case by (subst readCertificateBundle_loop.simps) simp
next
  case (pemBlocks_none pemCerts)
  then show ?case by (subst readCertificateBundle_loop.simps) (auto split: prod.splits)
next
  case (pemBlocks_block pemCerts block rest blocks)
  show ?case
  proof (cases "acceptedBlock block")
    case True
    with pemBlocks_block.prems obtain c cs' where
      c: "x509_ParseCertificate lib (Bytes block) = Inr c" and cs: "cs = c # cs'"
      and rest: "map (\<lambda>b. x509_ParseCertificate lib (Bytes b)) (filter acceptedBlock blocks) = map Inr cs'"
      by (cases cs) auto
    have "readCertificateBundle_loop lib pemCerts certs = readCertificateBundle_loop lib rest (certs @ [c])"
      using True pemBlocks_block.hyps c
      by (subst readCertificateBundle_loop.simps) (simp add: acceptedBlock_def)
    also have "\<dots> = Some (Inr ((certs @ [c]) @ cs'))"
      by (rule pemBlocks_block.IH [OF rest])
    finally show ?thesis by (simp add: cs)
  next
    case False
    with pemBlocks_block.prems have
      rest: "map (\<lambda>b. x509_ParseCertificate lib (Bytes b)) (filter acceptedBlock blocks) = map Inr cs"
      by simp
    have "readCertificateBundle_loop lib pemCerts certs = readCertificateBundle_loop lib rest certs"
      using False pemBlocks_block.hyps
      by (subst readCertificateBundle_loop.simps) (auto simp: acceptedBlock_def)
    then show ?thesis by (simp add: pemBlocks_block.IH [OF rest])
  qed
qed

lemma loop_parse_failure:
  "pemBlocks lib pemCerts blocks \<Longrightarrow>
   filter acceptedBlock blocks = good @ bad # others \<Longrightarrow>
   map (\<lambda>b. x509_ParseCertificate lib (Bytes b)) good = map Inr cs \<Longrightarrow>
   x509_ParseCertificate lib (Bytes bad) = Inl err \<Longrightarrow>
   readCertificateBundle_loop lib pemCerts certs = Some (Inl err)"
proof (induction arbitrary: certs cs good rule: pemBlocks.induct)
  case pemBlocks_empty
  then show ?case by simp
next
  case (pemBlocks_none pemCerts)
  then show ?case by simp
next
  case (pemBlocks_block pemCerts block rest blocks)
  show ?case
  proof (cases "acceptedBlock block")
    case True
    note acc = this
    show ?thesis
    proof (cases good)
      case Nil
      with acc pemBlocks_block.prems have "bad = block" by simp
      then show ?thesis
        using acc pemBlocks_block.hyps pemBlocks_block.prems(3)
        by (subst readCertificateBundle_loop.simps) (simp add: acceptedBlock_def)
    next
      case (Cons g good')
      with acc pemBlocks_block.prems obtain c cs' where
        g: "g = block" and c: "x509_ParseCertificate lib (Bytes block) = Inr c"
        and fl: "filter acceptedBlock blocks = good' @ bad # others"
        and rest: "map (\<lambda>b. x509_ParseCertificate lib (Bytes b)) good' = map Inr cs'"
        by (cases cs) auto
      have "readCertificateBundle_loop lib pemCerts certs = readCertificateBundle_loop lib rest (certs @ [c])"
        using acc pemBlocks_block.hyps c
        by (subst readCertificateBundle_loop.simps) (simp add: acceptedBlock_def)
      then show ?thesis
        by (simp add: pemBlocks_block.IH [OF fl rest pemBlocks_block.prems(3)])
    qed
  next
    case False
    with pemBlocks_block.prems have fl: "filter acceptedBlock blocks = good @ bad # others"
      by simp
    have "readCertificateBundle_loop lib pemCerts certs = readCertificateBundle_loop lib rest certs"
      using False pemBlocks_block.hyps
      by (subst readCertificateBundle_loop.simps) (auto simp: acceptedBlock_def)
    then show ?thesis
      by (simp add: pemBlocks_block.IH [OF fl pemBlocks_block.prems(2,3)])
  qed
qed

lemma pemBlocks_total:
  "decodeConsumes lib \<Longrightarrow> \<exists>blocks. pemBlocks lib pemCerts blocks"
proof (induction pemCerts rule: length_induct)
  case (1 pemCerts)
  show ?case
  proof (cases "pemCerts = []")
    case True
    then show ?thesis by (auto intro: pemBlocks.intros)
  next
    case False
    show ?thesis
    proof (cases "pem_Decode lib pemCerts")
      case (Pair blk rest)
      show ?thesis
      proof (cases blk)
        case None
        with Pair False have "pemBlocks lib pemCerts []" by (intro pemBlocks_none) simp_all
        then show ?thesis ..
      next
        case (Some block)
        with Pair "1.prems" have "length rest < length pemCerts"
          by (auto simp: decodeConsumes_def)
        with "1.IH" "1.prems" obtain blocks where "pemBlocks lib rest blocks" by blast
        with Pair Some False have "pemBlocks lib pemCerts (block # blocks)"
          by (intro pemBlocks_block [where rest = rest]) simp_all
        then show ?thesis ..
      qed
    qed
  qed
qed

lemma pemBlocks_unique:
  "pemBlocks lib pemCerts blocks \<Longrightarrow> pemBlocks lib pemCerts blocks' \<Longrightarrow> blocks' = blocks"
proof (induction arbitrary: blocks' rule: pemBlocks.induct)
  case pemBlocks_empty
  from pemBlocks_empty show ?case
    by (cases rule: pemBlocks.cases) simp_all
next
  case (pemBlocks_none pemCerts)
  from pemBlocks_none.prems show ?case
  proof (cases rule: pemBlocks.cases)
    case (pemBlocks_block block rest blocks)
    with pemBlocks_none.hyps show ?thesis by simp
  qed simp_all
next
  case (pemBlocks_block pemCerts block rest blocks)
  from pemBlocks_block.prems show ?case
  proof (cases rule: pemBlocks.cases)
    case pemBlocks_empty
    with pemBlocks_block.hyps show ?thesis by simp
  next
    case pemBlocks_none
    with pemBlocks_block.hyps show ?thesis by simp
  next
    case inner: (pemBlocks_block block2 rest2 blocks2)
    from inner(3) pemBlocks_block.hyps(2) have eq: "block2 = block" "rest2 = rest" by simp_all
    from inner(4) have "blocks2 = blocks" unfolding eq by (rule pemBlocks_block.IH)
    with inner(1) eq show ?thesis by simp
  qed
qed

lemma sample_decode:
  "pem_Decode sampleLib (b # rest) =
     (if b = 0 then (None, b # rest)
      else (Some (sampleBlock b (if b = 1 \<or> b = 3 \<or> b = 4 then ''CERTIFICATE'' else ''PRIVATE KEY'')), rest))"
  by (simp add: sampleLib_def)

lemma sample_parse:
  "x509_ParseCertificate sampleLib der = (if der = [1] then Inr sampleCert else Inl (ErrorNew ''asn1: syntax error''))"
  by (simp add: sampleLib_def sampleCert_def)

lemma sample_decode_Nil: "pem_Decode sampleLib [] = (None, [])"
  by (simp add: sampleLib_def)

lemma sample_consumes: "decodeConsumes sampleLib"
  unfolding decodeConsumes_def
proof (intro allI impI)
  fix pemCerts block rest
  assume "pem_Decode sampleLib pemCerts = (Some block, rest)"
  then show "length rest < length pemCerts"
    by (cases pemCerts) (simp_all add: sample_decode sample_decode_Nil split: if_splits)
qed

lemma sample_blocks: "pemBlocks sampleLib [1,2,3,1] [sampleBlock 1 ''CERTIFICATE'', sampleBlock 2 ''PRIVATE KEY'', sampleBlock 3 ''CERTIFICATE'', sampleBlock 1 ''CERTIFICATE'']"
proof -
  have 4: "pemBlocks sampleLib [1] [sampleBlock 1 ''CERTIFICATE'']"
    by (rule pemBlocks_block [where rest = "[]"]) (simp_all add: sample_decode pemBlocks_empty)
  have 3: "pemBlocks sampleLib [3,1] [sampleBlock 3 ''CERTIFICATE'', sampleBlock 1 ''CERTIFICATE'']"
    by (rule pemBlocks_block [where rest = "[1]"]) (simp_all add: sample_decode 4)
  have 2: "pemBlocks sampleLib [2,3,1] [sampleBlock 2 ''PRIVATE KEY'', sampleBlock 3 ''CERTIFICATE'', sampleBlock 1 ''CERTIFICATE'']"
    by (rule pemBlocks_block [where rest = "[3,1]"]) (simp_all add: sample_decode 3)
  show ?thesis
    by (rule pemBlocks_block [where rest = "[2,3,1]"]) (simp_all add: sample_decode 2)
qed

lemma sample_bundle_ok: "readCertificateBundle sampleLib [1,2,3,1] = Some (Inr [sampleCert, sampleCert])"
  by (simp add: readCertificateBundle_def readCertificateBundle_loop.simps sample_decode sample_parse sampleBlock_def)

lemma sample_bundle_bad: "readCertificateBundle sampleLib [1,4,1] = Some (Inl (ErrorNew ''asn1: syntax error''))"
  by (simp add: readCertificateBundle_def readCertificateBundle_loop.simps sample_decode sample_parse sampleBlock_def)

lemma parse_all_or_first_failure:
  "(\<exists>cs. map f xs = map Inr cs) \<or>
   (\<exists>good bad others cs err. xs = good @ bad # others \<and> map f good = map Inr cs \<and> f bad = Inl err)"
proof (induction xs)
  case Nil
  then show ?case by simp
next
  case (Cons x xs)
  show ?case
  proof (cases "f x")
    case (Inl err)
    then have "x # xs = [] @ x # xs \<and> map f [] = map Inr [] \<and> f x = Inl err" by simp
    then show ?thesis by blast
  next
    case (Inr c)
    from Cons.IH show ?thesis
    proof
      assume "\<exists>cs. map f xs = map Inr cs"
      then obtain cs where "map f xs = map Inr cs" ..
      with Inr have "map f (x # xs) = map Inr (c # cs)" by simp
      then show ?thesis by blast
    next
      assume "\<exists>good bad others cs err. xs = good @ bad # others \<and> map f good = map Inr cs \<and> f bad = Inl err"
      then obtain good bad others cs err where
        "xs = good @ bad # others" "map f good = map Inr cs" "f bad = Inl err" by blast
      with Inr have "x # xs = (x # good) @ bad # others \<and> map f (x # good) = map Inr (c # cs) \<and> f bad = Inl err"
        by simp
      then show ?thesis by blast
    qed
  qed
qed

lemma sampleBlock_Bytes: "Bytes (sampleBlock b t) = [b]"
  by (simp add: sampleBlock_def)

lemma sampleBlock_accepted: "acceptedBlock (sampleBlock b t) = (t = ''CERTIFICATE'' \<and> b \<noteq> 3)"
  by (simp add: sampleBlock_def acceptedBlock_def)

lemma sample_blocks_bad:
  "pemBlocks sampleLib [1,4,1]
     [sampleBlock 1 ''CERTIFICATE'', sampleBlock 4 ''CERTIFICATE'', sampleBlock 1 ''CERTIFICATE'']"
proof -
  have 3: "pemBlocks sampleLib [1] [sampleBlock 1 ''CERTIFICATE'']"
    by (rule pemBlocks_block [where rest = "[]"]) (simp_all add: sample_decode pemBlocks_empty)
  have 2: "pemBlocks sampleLib [4,1] [sampleBlock 4 ''CERTIFICATE'', sampleBlock 1 ''CERTIFICATE'']"
    by (rule pemBlocks_block [where rest = "[1]"]) (simp_all add: sample_decode 3)
  show ?thesis
    by (rule pemBlocks_block [where rest = "[4,1]"]) (simp_all add: sample_decode 2)
qed

text \<open>
  C3. For every input (given that \<^verbatim>\<open>pem.Decode\<close> consumes input whenever it returns a
  block) \<^verbatim>\<open>readCertificateBundle\<close> returns. Let \<open>blocks\<close> be the PEM blocks of the input in
  input order. If every block typed CERTIFICATE with an empty header map parses, the result
  is the list of their certificates in that order, one per such block; blocks of another
  type or with headers contribute nothing. If one of the kept blocks fails to parse, the
  result is the parse error of the first such block and no list.
\<close>

theorem readCertificateBundle_blocks:
  assumes "decodeConsumes lib"
  shows "\<exists>blocks. pemBlocks lib pemCerts blocks \<and>
     (\<forall>blocks'. pemBlocks lib pemCerts blocks' \<longrightarrow> blocks' = blocks) \<and>
     (\<forall>certs. map (\<lambda>b. x509_ParseCertificate lib (Bytes b)) (filter acceptedBlock blocks) = map Inr certs
        \<longrightarrow> readCertificateBundle lib pemCerts = Some (Inr certs)) \<and>
     (\<forall>good bad others certs err.
        filter acceptedBlock blocks = good @ bad # others \<and>
        map (\<lambda>b. x509_ParseCertificate lib (Bytes b)) good = map Inr certs \<and>
        x509_ParseCertificate lib (Bytes bad) = Inl err
        \<longrightarrow> readCertificateBundle lib pemCerts = Some (Inl err)) \<and>
     readCertificateBundle lib pemCerts \<noteq> None"
proof -
  from assms obtain blocks where blocks: "pemBlocks lib pemCerts blocks"
    using pemBlocks_total by blast
  have uniq: "\<forall>blocks'. pemBlocks lib pemCerts blocks' \<longrightarrow> blocks' = blocks"
    using pemBlocks_unique [OF blocks] by blast
  have ok: "\<forall>certs. map (\<lambda>b. x509_ParseCertificate lib (Bytes b)) (filter acceptedBlock blocks) = map Inr certs
        \<longrightarrow> readCertificateBundle lib pemCerts = Some (Inr certs)"
    using loop_all_parse [OF blocks, where certs = "[]"] by (simp add: readCertificateBundle_def)
  have bad: "\<forall>good bad others certs err.
        filter acceptedBlock blocks = good @ bad # others \<and>
        map (\<lambda>b. x509_ParseCertificate lib (Bytes b)) good = map Inr certs \<and>
        x509_ParseCertificate lib (Bytes bad) = Inl err
        \<longrightarrow> readCertificateBundle lib pemCerts = Some (Inl err)"
    using loop_parse_failure [OF blocks, where certs = "[]"]
    unfolding readCertificateBundle_def by blast
  have "readCertificateBundle lib pemCerts \<noteq> None"
    using parse_all_or_first_failure
      [of "\<lambda>b. x509_ParseCertificate lib (Bytes b)" "filter acceptedBlock blocks"] ok bad
    by (metis option.distinct(1))
  with blocks uniq ok bad show ?thesis by blast
qed

theorem readCertificateBundle_blocks_witness:
  "decodeConsumes sampleLib \<and>
   readCertificateBundle sampleLib [1, 2, 3, 1] = Some (Inr [sampleCert, sampleCert]) \<and>
   readCertificateBundle sampleLib [1, 4, 1] = Some (Inl (ErrorNew ''asn1: syntax error''))"
proof -
  from readCertificateBundle_blocks [OF sample_consumes, of "[1, 2, 3, 1]"] sample_blocks
  have ok: "\<forall>certs. map (\<lambda>b. x509_ParseCertificate sampleLib (Bytes b))
       (filter acceptedBlock [sampleBlock 1 ''CERTIFICATE'', sampleBlock 2 ''PRIVATE KEY'',
          sampleBlock 3 ''CERTIFICATE'', sampleBlock 1 ''CERTIFICATE'']) = map Inr certs
     \<longrightarrow> readCertificateBundle sampleLib [1, 2, 3, 1] = Some (Inr certs)"
    by metis
  have 1: "readCertificateBundle sampleLib [1, 2, 3, 1] = Some (Inr [sampleCert, sampleCert])"
    by (rule ok [rule_format]) (simp add: sampleBlock_accepted sample_parse sampleBlock_Bytes)
  from readCertificateBundle_blocks [OF sample_consumes, of "[1, 4, 1]"] sample_blocks_bad
  have bad: "\<forall>good bad others certs err.
        filter acceptedBlock [sampleBlock 1 ''CERTIFICATE'', sampleBlock 4 ''CERTIFICATE'',
          sampleBlock 1 ''CERTIFICATE''] = good @ bad # others \<and>
        map (\<lambda>b. x509_ParseCertificate sampleLib (Bytes b)) good = map Inr certs \<and>
        x509_ParseCertificate sampleLib (Bytes bad) = Inl err
        \<longrightarrow> readCertificateBundle sampleLib [1, 4, 1] = Some (Inl err)"
    by metis
  have 2: "readCertificateBundle sampleLib [1, 4, 1] = Some (Inl (ErrorNew ''asn1: syntax error''))"
    by (rule bad [rule_format, where good = "[sampleBlock 1 ''CERTIFICATE'']"
          and bad = "sampleBlock 4 ''CERTIFICATE''" and others = "[sampleBlock 1 ''CERTIFICATE'']"
          and certs = "[sampleCert]"])
       (simp add: sampleBlock_accepted sample_parse sampleBlock_Bytes)
  from sample_consumes 1 2 show ?thesis by simp
qed

subsection \<open>The SSH signer options\<close>

lemma WithSSHUserSigner_Inr:
  "NewSignerFromSigner lib s = Inr signer \<Longrightarrow>
   WithSSHUserSigner lib s a =
     Inr (a\<lparr>sshCAUserCertSignKey := Some signer,
            sshCAUserCerts := sshCAUserCerts a @ [SignerPublicKey lib signer],
            sshCAUserFederatedCerts := sshCAUserFederatedCerts a @ [SignerPublicKey lib signer]\<rparr>)"
  by (simp add: WithSSHUserSigner_def Let_def)

lemma WithSSHUserSigner_Inl:
  "NewSignerFromSigner lib s = Inl err \<Longrightarrow>
   WithSSHUserSigner lib s a = Inl (ErrorWrap err ''error creating ssh user signer'')"
  by (simp add: WithSSHUserSigner_def)

lemma WithSSHHostSigner_Inr:
  "NewSignerFromSigner lib s = Inr signer \<Longrightarrow>
   WithSSHHostSigner lib s a =
     Inr (a\<lparr>sshCAHostCertSignKey := Some signer,
            sshCAHostCerts := sshCAHostCerts a @ [SignerPublicKey lib signer],
            sshCAHostFederatedCerts := sshCAHostFederatedCerts a @ [SignerPublicKey lib signer]\<rparr>)"
  by (simp add: WithSSHHostSigner_def Let_def)

lemma WithSSHHostSigner_Inl:
  "NewSignerFromSigner lib s = Inl err \<Longrightarrow>
   WithSSHHostSigner lib s a = Inl (ErrorWrap err ''error creating ssh host signer'')"
  by (simp add: WithSSHHostSigner_def)

lemma applyOptions_user_signers:
  "applyOptions (map (WithSSHUserSigner lib) ss) a = Inr a' \<Longrightarrow>
   \<exists>signers. map (NewSignerFromSigner lib) ss = map Inr signers \<and>
     sshCAUserCerts a' = sshCAUserCerts a @ map (SignerPublicKey lib) signers \<and>
     sshCAUserFederatedCerts a' = sshCAUserFederatedCerts a @ map (SignerPublicKey lib) signers \<and>
     sshCAUserCertSignKey a' = (if signers = [] then sshCAUserCertSignKey a else Some (last signers))"
proof (induction ss arbitrary: a)
  case Nil
  then show ?case by simp
next
  case (Cons s ss)
  from Cons.prems obtain signer where
    signer: "NewSignerFromSigner lib s = Inr signer"
    by (cases "NewSignerFromSigner lib s") (simp_all add: WithSSHUserSigner_Inl)
  define a1 where "a1 = a\<lparr>sshCAUserCertSignKey := Some signer,
                sshCAUserCerts := sshCAUserCerts a @ [SignerPublicKey lib signer],
                sshCAUserFederatedCerts := sshCAUserFederatedCerts a @ [SignerPublicKey lib signer]\<rparr>"
  from Cons.prems signer have "applyOptions (map (WithSSHUserSigner lib) ss) a1 = Inr a'"
    by (simp add: WithSSHUserSigner_Inr a1_def)
  from Cons.IH [OF this] obtain signers where
    IH: "map (NewSignerFromSigner lib) ss = map Inr signers"
     "sshCAUserCerts a' = sshCAUserCerts a1 @ map (SignerPublicKey lib) signers"
     "sshCAUserFederatedCerts a' = sshCAUserFederatedCerts a1 @ map (SignerPublicKey lib) signers"
     "sshCAUserCertSignKey a' = (if signers = [] then sshCAUserCertSignKey a1 else Some (last signers))"
    by blast
  show ?case
    by (rule exI [where x = "signer # signers"]) (simp add: IH signer a1_def)
qed

lemma applyOptions_host_signers:
  "applyOptions (map (WithSSHHostSigner lib) ss) a = Inr a' \<Longrightarrow>
   \<exists>signers. map (NewSignerFromSigner lib) ss = map Inr signers \<and>
     sshCAHostCerts a' = sshCAHostCerts a @ map (SignerPublicKey lib) signers \<and>
     sshCAHostFederatedCerts a' = sshCAHostFederatedCerts a @ map (SignerPublicKey lib) signers \<and>
     sshCAHostCertSignKey a' = (if signers = [] then sshCAHostCertSignKey a else Some (last signers))"
proof (induction ss arbitrary: a)
  case Nil
  then show ?case by simp
next
  case (Cons s ss)
  from Cons.prems obtain signer where
    signer: "NewSignerFromSigner lib s = Inr signer"
    by (cases "NewSignerFromSigner lib s") (simp_all add: WithSSHHostSigner_Inl)
  define a1 where "a1 = a\<lparr>sshCAHostCertSignKey := Some signer,
                sshCAHostCerts := sshCAHostCerts a @ [SignerPublicKey lib signer],
                sshCAHostFederatedCerts := sshCAHostFederatedCerts a @ [SignerPublicKey lib signer]\<rparr>"
  from Cons.prems signer have "applyOptions (map (WithSSHHostSigner lib) ss) a1 = Inr a'"
    by (simp add: WithSSHHostSigner_Inr a1_def)
  from Cons.IH [OF this] obtain signers where
    IH: "map (NewSignerFromSigner lib) ss = map Inr signers"
     "sshCAHostCerts a' = sshCAHostCerts a1 @ map (SignerPublicKey lib) signers"
     "sshCAHostFederatedCerts a' = sshCAHostFederatedCerts a1 @ map (SignerPublicKey lib) signers"
     "sshCAHostCertSignKey a' = (if signers = [] then sshCAHostCertSignKey a1 else Some (last signers))"
    by blast
  show ?case
    by (rule exI [where x = "signer # signers"]) (simp add: IH signer a1_def)
qed

lemma applyOptions_signers_succeed:
  "map (NewSignerFromSigner lib) ss = map Inr signers \<Longrightarrow>
   (\<exists>a'. applyOptions (map (WithSSHUserSigner lib) ss) a = Inr a') \<and>
   (\<exists>a'. applyOptions (map (WithSSHHostSigner lib) ss) a = Inr a')"
proof (induction ss arbitrary: a signers)
  case Nil
  then show ?case by simp
next
  case (Cons s ss)
  then obtain signer signers' where "NewSignerFromSigner lib s = Inr signer"
    "map (NewSignerFromSigner lib) ss = map Inr signers'"
    by (cases signers) auto
  with Cons.IH show ?case
    by (simp add: WithSSHUserSigner_Inr WithSSHHostSigner_Inr)
qed

lemma sample_signer_bad: "NewSignerFromSigner sampleLib (Signer 0) = Inl (ErrorNew ''ssh: unsupported key type'')"
  by (simp add: sampleLib_def)

lemma sample_signer_ok: "0 < n \<Longrightarrow> NewSignerFromSigner sampleLib (Signer n) = Inr (SSHSigner n)"
  by (simp add: sampleLib_def)

lemma sample_signer_key: "SignerPublicKey sampleLib (SSHSigner n) = sampleKeyOf n"
  by (simp add: sampleLib_def)

lemma WithX509RootBundle_cases:
  "WithX509RootBundle lib pemCerts a =
     (case readCertificateBundle lib pemCerts of
        None \<Rightarrow> None
      | Some (Inl err) \<Rightarrow> Some (Inl err)
      | Some (Inr certs) \<Rightarrow> Some (Inr (a\<lparr>rootX509Certs := certs\<rparr>)))"
  by (simp add: WithX509RootBundle_def)

lemma WithX509FederatedBundle_cases:
  "WithX509FederatedBundle lib pemCerts a =
     (case readCertificateBundle lib pemCerts of
        None \<Rightarrow> None
      | Some (Inl err) \<Rightarrow> Some (Inl err)
      | Some (Inr certs) \<Rightarrow> Some (Inr (a\<lparr>federatedX509Certs := certs\<rparr>)))"
  by (simp add: WithX509FederatedBundle_def)

lemma bundle_options_fail_iff:
  "(\<exists>err. WithX509RootBundle lib pemCerts a = Some (Inl err)) = (\<exists>err. readCertificateBundle lib pemCerts = Some (Inl err))"
  "(\<exists>err. WithX509FederatedBundle lib pemCerts a = Some (Inl err)) = (\<exists>err. readCertificateBundle lib pemCerts = Some (Inl err))"
  by (auto simp: WithX509RootBundle_cases WithX509FederatedBundle_cases split: option.splits sum.splits)

lemma signer_options_fail_iff:
  "(\<exists>err. WithSSHUserSigner lib s a = Inl err) = (\<exists>err. NewSignerFromSigner lib s = Inl err)"
  "(\<exists>err. WithSSHHostSigner lib s a = Inl err) = (\<exists>err. NewSignerFromSigner lib s = Inl err)"
  by (cases "NewSignerFromSigner lib s"; simp add: WithSSHUserSigner_Inl WithSSHUserSigner_Inr WithSSHHostSigner_Inl WithSSHHostSigner_Inr)+

text \<open>
  C10. \<^verbatim>\<open>WithDatabase\<close>, \<^verbatim>\<open>WithGetIdentityFunc\<close>, \<^verbatim>\<open>WithSSHBastionFunc\<close>,
  \<^verbatim>\<open>WithSSHGetHosts\<close>, \<^verbatim>\<open>WithSSHCheckHost\<close>, \<^verbatim>\<open>WithKeyManager\<close>, \<^verbatim>\<open>WithX509Signer\<close>,
  \<^verbatim>\<open>WithX509RootCerts\<close> and \<^verbatim>\<open>WithX509FederatedCerts\<close> return no error, for every
  argument and every Authority. The two SSH signer options fail exactly when
  \<^verbatim>\<open>ssh.NewSignerFromSigner\<close> does, the two bundle options exactly when the bundle reader
  does, and each of the four has failing inputs.
\<close>

theorem options_error_free:
  "(\<exists>a'. WithDatabase d a = Inr a') \<and>
   (\<exists>a'. WithGetIdentityFunc getIdentity a = Inr a') \<and>
   (\<exists>a'. WithSSHBastionFunc bastion a = Inr a') \<and>
   (\<exists>a'. WithSSHGetHosts getHosts a = Inr a') \<and>
   (\<exists>a'. WithSSHCheckHost checkHost a = Inr a') \<and>
   (\<exists>a'. WithKeyManager k a = Inr a') \<and>
   (\<exists>a'. WithX509Signer crt signer a = Inr a') \<and>
   (\<exists>a'. WithX509RootCerts rootCerts a = Inr a') \<and>
   (\<exists>a'. WithX509FederatedCerts certs a = Inr a') \<and>
   ((\<exists>err. WithSSHUserSigner lib s a = Inl err) = (\<exists>err. NewSignerFromSigner lib s = Inl err)) \<and>
   ((\<exists>err. WithSSHHostSigner lib s a = Inl err) = (\<exists>err. NewSignerFromSigner lib s = Inl err)) \<and>
   ((\<exists>err. WithX509RootBundle lib pemCerts a = Some (Inl err)) =
      (\<exists>err. readCertificateBundle lib pemCerts = Some (Inl err))) \<and>
   ((\<exists>err. WithX509FederatedBundle lib pemCerts a = Some (Inl err)) =
      (\<exists>err. readCertificateBundle lib pemCerts = Some (Inl err))) \<and>
   (\<exists>lib' s' err. WithSSHUserSigner lib' s' a = Inl err) \<and>
   (\<exists>lib' s' err. WithSSHHostSigner lib' s' a = Inl err) \<and>
   (\<exists>lib' pemCerts' err. WithX509RootBundle lib' pemCerts' a = Some (Inl err)) \<and>
   (\<exists>lib' pemCerts' err. WithX509FederatedBundle lib' pemCerts' a = Some (Inl err))"
proof -
  have total: "(\<exists>a'. WithDatabase d a = Inr a') \<and>
   (\<exists>a'. WithGetIdentityFunc getIdentity a = Inr a') \<and>
   (\<exists>a'. WithSSHBastionFunc bastion a = Inr a') \<and>
   (\<exists>a'. WithSSHGetHosts getHosts a = Inr a') \<and>
   (\<exists>a'. WithSSHCheckHost checkHost a = Inr a') \<and>
   (\<exists>a'. WithKeyManager k a = Inr a') \<and>
   (\<exists>a'. WithX509Signer crt signer a = Inr a') \<and>
   (\<exists>a'. WithX509RootCerts rootCerts a = Inr a') \<and>
   (\<exists>a'. WithX509FederatedCerts certs a = Inr a')"
    by (simp add: WithDatabase_def WithGetIdentityFunc_def WithSSHBastionFunc_def
        WithSSHGetHosts_def WithSSHCheckHost_def WithKeyManager_def WithX509Signer_def
        WithX509RootCerts_def WithX509FederatedCerts_def)
  have u: "\<exists>lib' s' err. WithSSHUserSigner lib' s' a = Inl err"
    using WithSSHUserSigner_Inl [OF sample_signer_bad] by blast
  have h: "\<exists>lib' s' err. WithSSHHostSigner lib' s' a = Inl err"
    using WithSSHHostSigner_Inl [OF sample_signer_bad] by blast
  have r: "\<exists>lib' pemCerts' err. WithX509RootBundle lib' pemCerts' a = Some (Inl err)"
    using bundle_options_fail_iff(1) [of sampleLib "[1, 4, 1]" a] sample_bundle_bad by blast
  have f: "\<exists>lib' pemCerts' err. WithX509FederatedBundle lib' pemCerts' a = Some (Inl err)"
    using bundle_options_fail_iff(2) [of sampleLib "[1, 4, 1]" a] sample_bundle_bad by blast
  show ?thesis
    using total signer_options_fail_iff [of lib s a] bundle_options_fail_iff [of lib pemCerts a] u h r f
    by blast
qed

theorem options_error_free_witness:
  "(\<exists>a'. WithDatabase (Some (AuthDB 1)) sampleAuthority = Inr a') \<and>
   (\<exists>a'. WithX509RootCerts [] sampleAuthority = Inr a') \<and>
   (\<exists>err. WithSSHUserSigner sampleLib (Signer 0) sampleAuthority = Inl err) \<and>
   (\<exists>err. WithX509FederatedBundle sampleLib [1, 4, 1] sampleAuthority = Some (Inl err))"
  using options_error_free [of "Some (AuthDB 1)" sampleAuthority _ _ _ _ _ _ _ "[]" _ sampleLib "Signer 0" "[1, 4, 1]"]
    sample_signer_bad sample_bundle_bad
  by simp

subsection \<open>Replacing and appending options\<close>

text \<open>
  C9. \<^verbatim>\<open>WithX509RootCerts\<close>, \<^verbatim>\<open>WithX509FederatedCerts\<close>, \<^verbatim>\<open>WithX509RootBundle\<close> and
  \<^verbatim>\<open>WithX509FederatedBundle\<close> are idempotent: applying the same option twice gives the
  Authority that applying it once gives, because the root (federated) list is replaced by
  the option's own list, whatever it was before. The two list options always succeed and
  return the Authority with that one field replaced; the two bundle options do so with the
  parsed list whenever the bundle parses.
\<close>

theorem replace_options_idempotent:
  "WithX509RootCerts rootCerts a = Inr (a\<lparr>rootX509Certs := rootCerts\<rparr>) \<and>
   WithX509FederatedCerts certs a = Inr (a\<lparr>federatedX509Certs := certs\<rparr>) \<and>
   applyOptions [WithX509RootCerts rootCerts, WithX509RootCerts rootCerts] a
     = Inr (a\<lparr>rootX509Certs := rootCerts\<rparr>) \<and>
   applyOptions [WithX509FederatedCerts certs, WithX509FederatedCerts certs] a
     = Inr (a\<lparr>federatedX509Certs := certs\<rparr>) \<and>
   applyOptions [WithX509RootCerts rootCerts, WithX509RootCerts rootCerts] a
     = applyOptions [WithX509RootCerts rootCerts] a \<and>
   applyOptions [WithX509FederatedCerts certs, WithX509FederatedCerts certs] a
     = applyOptions [WithX509FederatedCerts certs] a \<and>
   (\<forall>a1. WithX509RootCerts rootCerts a = Inr a1 \<longrightarrow> rootX509Certs a1 = rootCerts) \<and>
   (\<forall>a1. WithX509FederatedCerts certs a = Inr a1 \<longrightarrow> federatedX509Certs a1 = certs) \<and>
   (\<forall>parsed. readCertificateBundle lib pemCerts = Some (Inr parsed) \<longrightarrow>
      WithX509RootBundle lib pemCerts a = Some (Inr (a\<lparr>rootX509Certs := parsed\<rparr>))) \<and>
   (\<forall>parsed. readCertificateBundle lib pemCerts = Some (Inr parsed) \<longrightarrow>
      WithX509FederatedBundle lib pemCerts a = Some (Inr (a\<lparr>federatedX509Certs := parsed\<rparr>))) \<and>
   (\<forall>a1. WithX509RootBundle lib pemCerts a = Some (Inr a1) \<longrightarrow>
      WithX509RootBundle lib pemCerts a1 = Some (Inr a1) \<and>
      readCertificateBundle lib pemCerts = Some (Inr (rootX509Certs a1))) \<and>
   (\<forall>a1. WithX509FederatedBundle lib pemCerts a = Some (Inr a1) \<longrightarrow>
      WithX509FederatedBundle lib pemCerts a1 = Some (Inr a1) \<and>
      readCertificateBundle lib pemCerts = Some (Inr (federatedX509Certs a1)))"
proof -
  have r: "WithX509RootCerts rootCerts a = Inr (a\<lparr>rootX509Certs := rootCerts\<rparr>)"
    by (simp add: WithX509RootCerts_def)
  have f: "WithX509FederatedCerts certs a = Inr (a\<lparr>federatedX509Certs := certs\<rparr>)"
    by (simp add: WithX509FederatedCerts_def)
  have rr: "applyOptions [WithX509RootCerts rootCerts, WithX509RootCerts rootCerts] a
     = Inr (a\<lparr>rootX509Certs := rootCerts\<rparr>)"
    by (simp add: WithX509RootCerts_def)
  have ff: "applyOptions [WithX509FederatedCerts certs, WithX509FederatedCerts certs] a
     = Inr (a\<lparr>federatedX509Certs := certs\<rparr>)"
    by (simp add: WithX509FederatedCerts_def)
  have 1: "applyOptions [WithX509RootCerts rootCerts, WithX509RootCerts rootCerts] a
     = applyOptions [WithX509RootCerts rootCerts] a"
    by (simp add: WithX509RootCerts_def)
  have 2: "applyOptions [WithX509FederatedCerts certs, WithX509FederatedCerts certs] a
     = applyOptions [WithX509FederatedCerts certs] a"
    by (simp add: WithX509FederatedCerts_def)
  have 3: "\<forall>a1. WithX509RootCerts rootCerts a = Inr a1 \<longrightarrow> rootX509Certs a1 = rootCerts"
    by (auto simp: WithX509RootCerts_def)
  have 4: "\<forall>a1. WithX509FederatedCerts certs a = Inr a1 \<longrightarrow> federatedX509Certs a1 = certs"
    by (auto simp: WithX509FederatedCerts_def)
  have rb: "\<forall>parsed. readCertificateBundle lib pemCerts = Some (Inr parsed) \<longrightarrow>
      WithX509RootBundle lib pemCerts a = Some (Inr (a\<lparr>rootX509Certs := parsed\<rparr>))"
    by (simp add: WithX509RootBundle_cases)
  have fb: "\<forall>parsed. readCertificateBundle lib pemCerts = Some (Inr parsed) \<longrightarrow>
      WithX509FederatedBundle lib pemCerts a = Some (Inr (a\<lparr>federatedX509Certs := parsed\<rparr>))"
    by (simp add: WithX509FederatedBundle_cases)
  have 5: "\<forall>a1. WithX509RootBundle lib pemCerts a = Some (Inr a1) \<longrightarrow>
      WithX509RootBundle lib pemCerts a1 = Some (Inr a1) \<and>
      readCertificateBundle lib pemCerts = Some (Inr (rootX509Certs a1))"
    by (auto simp: WithX509RootBundle_cases split: option.splits sum.splits)
  have 6: "\<forall>a1. WithX509FederatedBundle lib pemCerts a = Some (Inr a1) \<longrightarrow>
      WithX509FederatedBundle lib pemCerts a1 = Some (Inr a1) \<and>
      readCertificateBundle lib pemCerts = Some (Inr (federatedX509Certs a1))"
    by (auto simp: WithX509FederatedBundle_cases split: option.splits sum.splits)
  show ?thesis
    by (intro conjI) (rule r f rr ff 1 2 3 4 rb fb 5 6)+
qed

lemma sample_root_bundle:
  "WithX509RootBundle sampleLib [1, 2, 3, 1] sampleAuthority =
     Some (Inr (sampleAuthority\<lparr>rootX509Certs := [sampleCert, sampleCert]\<rparr>))"
  by (simp add: WithX509RootBundle_cases sample_bundle_ok)

lemma sample_federated_bundle:
  "WithX509FederatedBundle sampleLib [1, 2, 3, 1] sampleAuthority =
     Some (Inr (sampleAuthority\<lparr>federatedX509Certs := [sampleCert, sampleCert]\<rparr>))"
  by (simp add: WithX509FederatedBundle_cases sample_bundle_ok)

lemma sample_root_certs:
  "WithX509RootCerts [sampleCert, sampleCert] sampleAuthority =
     Inr (sampleAuthority\<lparr>rootX509Certs := [sampleCert, sampleCert]\<rparr>)"
  "WithX509FederatedCerts [sampleCert, sampleCert] sampleAuthority =
     Inr (sampleAuthority\<lparr>federatedX509Certs := [sampleCert, sampleCert]\<rparr>)"
  by (simp_all add: WithX509RootCerts_def WithX509FederatedCerts_def)

theorem replace_options_idempotent_witness:
  "rootX509Certs sampleAuthority = [sampleCert] \<and>
   federatedX509Certs sampleAuthority = [] \<and>
   WithX509RootCerts [sampleCert, sampleCert] sampleAuthority =
     Inr (sampleAuthority\<lparr>rootX509Certs := [sampleCert, sampleCert]\<rparr>) \<and>
   applyOptions [WithX509RootCerts [sampleCert, sampleCert], WithX509RootCerts [sampleCert, sampleCert]]
       sampleAuthority =
     Inr (sampleAuthority\<lparr>rootX509Certs := [sampleCert, sampleCert]\<rparr>) \<and>
   rootX509Certs (sampleAuthority\<lparr>rootX509Certs := [sampleCert, sampleCert]\<rparr>) = [sampleCert, sampleCert] \<and>
   WithX509FederatedCerts [sampleCert, sampleCert] sampleAuthority =
     Inr (sampleAuthority\<lparr>federatedX509Certs := [sampleCert, sampleCert]\<rparr>) \<and>
   applyOptions [WithX509FederatedCerts [sampleCert, sampleCert], WithX509FederatedCerts [sampleCert, sampleCert]]
       sampleAuthority =
     Inr (sampleAuthority\<lparr>federatedX509Certs := [sampleCert, sampleCert]\<rparr>) \<and>
   federatedX509Certs (sampleAuthority\<lparr>federatedX509Certs := [sampleCert, sampleCert]\<rparr>) = [sampleCert, sampleCert] \<and>
   readCertificateBundle sampleLib [1, 2, 3, 1] = Some (Inr [sampleCert, sampleCert]) \<and>
   WithX509RootBundle sampleLib [1, 2, 3, 1] sampleAuthority =
     Some (Inr (sampleAuthority\<lparr>rootX509Certs := [sampleCert, sampleCert]\<rparr>)) \<and>
   WithX509RootBundle sampleLib [1, 2, 3, 1] (sampleAuthority\<lparr>rootX509Certs := [sampleCert, sampleCert]\<rparr>) =
     Some (Inr (sampleAuthority\<lparr>rootX509Certs := [sampleCert, sampleCert]\<rparr>)) \<and>
   WithX509FederatedBundle sampleLib [1, 2, 3, 1] sampleAuthority =
     Some (Inr (sampleAuthority\<lparr>federatedX509Certs := [sampleCert, sampleCert]\<rparr>)) \<and>
   WithX509FederatedBundle sampleLib [1, 2, 3, 1] (sampleAuthority\<lparr>federatedX509Certs := [sampleCert, sampleCert]\<rparr>) =
     Some (Inr (sampleAuthority\<lparr>federatedX509Certs := [sampleCert, sampleCert]\<rparr>))"
proof -
  note inst = replace_options_idempotent
    [of "[sampleCert, sampleCert]" sampleAuthority "[sampleCert, sampleCert]" sampleLib "[1, 2, 3, 1]"]
  have 0: "rootX509Certs sampleAuthority = [sampleCert]" "federatedX509Certs sampleAuthority = []"
    by (simp_all add: sampleAuthority_def)
  from inst have r: "WithX509RootCerts [sampleCert, sampleCert] sampleAuthority =
     Inr (sampleAuthority\<lparr>rootX509Certs := [sampleCert, sampleCert]\<rparr>)"
    by (elim conjE)
  from inst have f: "WithX509FederatedCerts [sampleCert, sampleCert] sampleAuthority =
     Inr (sampleAuthority\<lparr>federatedX509Certs := [sampleCert, sampleCert]\<rparr>)"
    by (elim conjE)
  from inst have rr: "applyOptions [WithX509RootCerts [sampleCert, sampleCert], WithX509RootCerts [sampleCert, sampleCert]]
       sampleAuthority =
     Inr (sampleAuthority\<lparr>rootX509Certs := [sampleCert, sampleCert]\<rparr>)"
    by (elim conjE)
  from inst have ff: "applyOptions [WithX509FederatedCerts [sampleCert, sampleCert], WithX509FederatedCerts [sampleCert, sampleCert]]
       sampleAuthority =
     Inr (sampleAuthority\<lparr>federatedX509Certs := [sampleCert, sampleCert]\<rparr>)"
    by (elim conjE)
  from inst r
  have 1: "rootX509Certs (sampleAuthority\<lparr>rootX509Certs := [sampleCert, sampleCert]\<rparr>) = [sampleCert, sampleCert]"
    by blast
  from inst f
  have 2: "federatedX509Certs (sampleAuthority\<lparr>federatedX509Certs := [sampleCert, sampleCert]\<rparr>) = [sampleCert, sampleCert]"
    by blast
  from inst sample_bundle_ok
  have rb: "WithX509RootBundle sampleLib [1, 2, 3, 1] sampleAuthority =
     Some (Inr (sampleAuthority\<lparr>rootX509Certs := [sampleCert, sampleCert]\<rparr>))"
    by blast
  from inst sample_bundle_ok
  have fb: "WithX509FederatedBundle sampleLib [1, 2, 3, 1] sampleAuthority =
     Some (Inr (sampleAuthority\<lparr>federatedX509Certs := [sampleCert, sampleCert]\<rparr>))"
    by blast
  from inst rb
  have 3: "WithX509RootBundle sampleLib [1, 2, 3, 1] (sampleAuthority\<lparr>rootX509Certs := [sampleCert, sampleCert]\<rparr>) =
     Some (Inr (sampleAuthority\<lparr>rootX509Certs := [sampleCert, sampleCert]\<rparr>))"
    by blast
  from inst fb
  have 4: "WithX509FederatedBundle sampleLib [1, 2, 3, 1] (sampleAuthority\<lparr>federatedX509Certs := [sampleCert, sampleCert]\<rparr>) =
     Some (Inr (sampleAuthority\<lparr>federatedX509Certs := [sampleCert, sampleCert]\<rparr>))"
    by blast
  show ?thesis
    by (intro conjI) (rule 0 r rr 1 f ff 2 sample_bundle_ok rb 3 fb 4)+
qed

text \<open>
  C7. A successful \<^verbatim>\<open>WithSSHUserSigner\<close> (\<^verbatim>\<open>WithSSHHostSigner\<close>) sets the user (host)
  signing key and appends the signer's public key to the local and to the federated user
  (host) list. Applying \<open>n\<close> of them in sequence appends the \<open>n\<close> public keys in application
  order, so each list grows by \<open>n\<close>; the sequence succeeds when every signer is accepted.
  Applying one such option twice never gives what applying it once gives.
\<close>

theorem ssh_signer_options_append:
  "(\<forall>a'. WithSSHUserSigner lib s a = Inr a' \<longrightarrow>
      (\<exists>signer. NewSignerFromSigner lib s = Inr signer \<and>
         sshCAUserCertSignKey a' = Some signer \<and>
         sshCAUserCerts a' = sshCAUserCerts a @ [SignerPublicKey lib signer] \<and>
         sshCAUserFederatedCerts a' = sshCAUserFederatedCerts a @ [SignerPublicKey lib signer])) \<and>
   (\<forall>a'. WithSSHHostSigner lib s a = Inr a' \<longrightarrow>
      (\<exists>signer. NewSignerFromSigner lib s = Inr signer \<and>
         sshCAHostCertSignKey a' = Some signer \<and>
         sshCAHostCerts a' = sshCAHostCerts a @ [SignerPublicKey lib signer] \<and>
         sshCAHostFederatedCerts a' = sshCAHostFederatedCerts a @ [SignerPublicKey lib signer])) \<and>
   (\<forall>a'. applyOptions (map (WithSSHUserSigner lib) ss) a = Inr a' \<longrightarrow>
      (\<exists>signers. map (NewSignerFromSigner lib) ss = map Inr signers \<and>
         sshCAUserCerts a' = sshCAUserCerts a @ map (SignerPublicKey lib) signers \<and>
         sshCAUserFederatedCerts a' = sshCAUserFederatedCerts a @ map (SignerPublicKey lib) signers) \<and>
      length (sshCAUserCerts a') = length (sshCAUserCerts a) + length ss \<and>
      length (sshCAUserFederatedCerts a') = length (sshCAUserFederatedCerts a) + length ss) \<and>
   (\<forall>a'. applyOptions (map (WithSSHHostSigner lib) ss) a = Inr a' \<longrightarrow>
      (\<exists>signers. map (NewSignerFromSigner lib) ss = map Inr signers \<and>
         sshCAHostCerts a' = sshCAHostCerts a @ map (SignerPublicKey lib) signers \<and>
         sshCAHostFederatedCerts a' = sshCAHostFederatedCerts a @ map (SignerPublicKey lib) signers) \<and>
      length (sshCAHostCerts a') = length (sshCAHostCerts a) + length ss \<and>
      length (sshCAHostFederatedCerts a') = length (sshCAHostFederatedCerts a) + length ss) \<and>
   (\<forall>signers. map (NewSignerFromSigner lib) ss = map Inr signers \<longrightarrow>
      (\<exists>a'. applyOptions (map (WithSSHUserSigner lib) ss) a = Inr a') \<and>
      (\<exists>a'. applyOptions (map (WithSSHHostSigner lib) ss) a = Inr a')) \<and>
   (\<forall>a1. WithSSHUserSigner lib s a = Inr a1 \<longrightarrow>
      applyOptions [WithSSHUserSigner lib s, WithSSHUserSigner lib s] a \<noteq> Inr a1) \<and>
   (\<forall>a1. WithSSHHostSigner lib s a = Inr a1 \<longrightarrow>
      applyOptions [WithSSHHostSigner lib s, WithSSHHostSigner lib s] a \<noteq> Inr a1)"
proof -
  have one_user: "\<forall>a'. WithSSHUserSigner lib s a = Inr a' \<longrightarrow>
      (\<exists>signer. NewSignerFromSigner lib s = Inr signer \<and>
         sshCAUserCertSignKey a' = Some signer \<and>
         sshCAUserCerts a' = sshCAUserCerts a @ [SignerPublicKey lib signer] \<and>
         sshCAUserFederatedCerts a' = sshCAUserFederatedCerts a @ [SignerPublicKey lib signer])"
    by (cases "NewSignerFromSigner lib s") (auto simp: WithSSHUserSigner_Inl WithSSHUserSigner_Inr)
  have one_host: "\<forall>a'. WithSSHHostSigner lib s a = Inr a' \<longrightarrow>
      (\<exists>signer. NewSignerFromSigner lib s = Inr signer \<and>
         sshCAHostCertSignKey a' = Some signer \<and>
         sshCAHostCerts a' = sshCAHostCerts a @ [SignerPublicKey lib signer] \<and>
         sshCAHostFederatedCerts a' = sshCAHostFederatedCerts a @ [SignerPublicKey lib signer])"
    by (cases "NewSignerFromSigner lib s") (auto simp: WithSSHHostSigner_Inl WithSSHHostSigner_Inr)
  have many_user: "\<forall>a'. applyOptions (map (WithSSHUserSigner lib) ss) a = Inr a' \<longrightarrow>
      (\<exists>signers. map (NewSignerFromSigner lib) ss = map Inr signers \<and>
         sshCAUserCerts a' = sshCAUserCerts a @ map (SignerPublicKey lib) signers \<and>
         sshCAUserFederatedCerts a' = sshCAUserFederatedCerts a @ map (SignerPublicKey lib) signers) \<and>
      length (sshCAUserCerts a') = length (sshCAUserCerts a) + length ss \<and>
      length (sshCAUserFederatedCerts a') = length (sshCAUserFederatedCerts a) + length ss"
  proof (intro allI impI)
    fix a' assume "applyOptions (map (WithSSHUserSigner lib) ss) a = Inr a'"
    from applyOptions_user_signers [OF this] obtain signers where
      s: "map (NewSignerFromSigner lib) ss = map Inr signers"
        "sshCAUserCerts a' = sshCAUserCerts a @ map (SignerPublicKey lib) signers"
        "sshCAUserFederatedCerts a' = sshCAUserFederatedCerts a @ map (SignerPublicKey lib) signers"
      by blast
    from s(1) have "length ss = length signers" by (rule map_eq_imp_length_eq)
    with s show "(\<exists>signers. map (NewSignerFromSigner lib) ss = map Inr signers \<and>
         sshCAUserCerts a' = sshCAUserCerts a @ map (SignerPublicKey lib) signers \<and>
         sshCAUserFederatedCerts a' = sshCAUserFederatedCerts a @ map (SignerPublicKey lib) signers) \<and>
      length (sshCAUserCerts a') = length (sshCAUserCerts a) + length ss \<and>
      length (sshCAUserFederatedCerts a') = length (sshCAUserFederatedCerts a) + length ss"
      by auto
  qed
  have many_host: "\<forall>a'. applyOptions (map (WithSSHHostSigner lib) ss) a = Inr a' \<longrightarrow>
      (\<exists>signers. map (NewSignerFromSigner lib) ss = map Inr signers \<and>
         sshCAHostCerts a' = sshCAHostCerts a @ map (SignerPublicKey lib) signers \<and>
         sshCAHostFederatedCerts a' = sshCAHostFederatedCerts a @ map (SignerPublicKey lib) signers) \<and>
      length (sshCAHostCerts a') = length (sshCAHostCerts a) + length ss \<and>
      length (sshCAHostFederatedCerts a') = length (sshCAHostFederatedCerts a) + length ss"
  proof (intro allI impI)
    fix a' assume "applyOptions (map (WithSSHHostSigner lib) ss) a = Inr a'"
    from applyOptions_host_signers [OF this] obtain signers where
      s: "map (NewSignerFromSigner lib) ss = map Inr signers"
        "sshCAHostCerts a' = sshCAHostCerts a @ map (SignerPublicKey lib) signers"
        "sshCAHostFederatedCerts a' = sshCAHostFederatedCerts a @ map (SignerPublicKey lib) signers"
      by blast
    from s(1) have "length ss = length signers" by (rule map_eq_imp_length_eq)
    with s show "(\<exists>signers. map (NewSignerFromSigner lib) ss = map Inr signers \<and>
         sshCAHostCerts a' = sshCAHostCerts a @ map (SignerPublicKey lib) signers \<and>
         sshCAHostFederatedCerts a' = sshCAHostFederatedCerts a @ map (SignerPublicKey lib) signers) \<and>
      length (sshCAHostCerts a') = length (sshCAHostCerts a) + length ss \<and>
      length (sshCAHostFederatedCerts a') = length (sshCAHostFederatedCerts a) + length ss"
      by auto
  qed
  have succeed: "\<forall>signers. map (NewSignerFromSigner lib) ss = map Inr signers \<longrightarrow>
      (\<exists>a'. applyOptions (map (WithSSHUserSigner lib) ss) a = Inr a') \<and>
      (\<exists>a'. applyOptions (map (WithSSHHostSigner lib) ss) a = Inr a')"
    using applyOptions_signers_succeed by blast
  have twice_user: "\<forall>a1. WithSSHUserSigner lib s a = Inr a1 \<longrightarrow>
      applyOptions [WithSSHUserSigner lib s, WithSSHUserSigner lib s] a \<noteq> Inr a1"
    by (cases "NewSignerFromSigner lib s")
      (auto simp: WithSSHUserSigner_Inl WithSSHUserSigner_Inr dest: arg_cong [where f = sshCAUserCerts])
  have twice_host: "\<forall>a1. WithSSHHostSigner lib s a = Inr a1 \<longrightarrow>
      applyOptions [WithSSHHostSigner lib s, WithSSHHostSigner lib s] a \<noteq> Inr a1"
    by (cases "NewSignerFromSigner lib s")
      (auto simp: WithSSHHostSigner_Inl WithSSHHostSigner_Inr dest: arg_cong [where f = sshCAHostCerts])
  from one_user one_host many_user many_host succeed twice_user twice_host show ?thesis
    by blast
qed

lemma sample_two_signers:
  "applyOptions (map (WithSSHUserSigner sampleLib) [Signer 1, Signer 2]) sampleAuthority = Inr sampleAuthority2"
  by (simp add: WithSSHUserSigner_Inr [OF sample_signer_ok] sample_signer_key sampleAuthority_def sampleAuthority2_def)

lemma sample_one_signer:
  "\<exists>a1. WithSSHUserSigner sampleLib (Signer 1) sampleAuthority = Inr a1"
  by (simp add: WithSSHUserSigner_Inr [OF sample_signer_ok])

lemma sample_two_host_signers:
  "applyOptions (map (WithSSHHostSigner sampleLib) [Signer 3, Signer 4]) sampleAuthority = Inr sampleAuthority3"
  by (simp add: WithSSHHostSigner_Inr [OF sample_signer_ok] sample_signer_key sampleAuthority_def sampleAuthority3_def)

theorem ssh_signer_options_append_witness:
  "applyOptions (map (WithSSHUserSigner sampleLib) [Signer 1, Signer 2]) sampleAuthority = Inr sampleAuthority2 \<and>
   length (sshCAUserCerts sampleAuthority) = 1 \<and>
   length (sshCAUserCerts sampleAuthority2) = 3 \<and>
   length (sshCAUserFederatedCerts sampleAuthority) = 2 \<and>
   length (sshCAUserFederatedCerts sampleAuthority2) = 4 \<and>
   applyOptions (map (WithSSHHostSigner sampleLib) [Signer 3, Signer 4]) sampleAuthority = Inr sampleAuthority3 \<and>
   length (sshCAHostCerts sampleAuthority) = 0 \<and>
   length (sshCAHostCerts sampleAuthority3) = 2 \<and>
   length (sshCAHostFederatedCerts sampleAuthority) = 1 \<and>
   length (sshCAHostFederatedCerts sampleAuthority3) = 3 \<and>
   (\<exists>a1. WithSSHUserSigner sampleLib (Signer 1) sampleAuthority = Inr a1 \<and>
      applyOptions [WithSSHUserSigner sampleLib (Signer 1), WithSSHUserSigner sampleLib (Signer 1)] sampleAuthority \<noteq> Inr a1)"
proof -
  note inst = ssh_signer_options_append [of sampleLib "Signer 1" sampleAuthority "[Signer 1, Signer 2]"]
  have 0: "length (sshCAUserCerts sampleAuthority) = 1" "length (sshCAUserFederatedCerts sampleAuthority) = 2"
    "length (sshCAHostCerts sampleAuthority) = 0" "length (sshCAHostFederatedCerts sampleAuthority) = 1"
    by (simp_all add: sampleAuthority_def)
  from inst sample_two_signers
  have "length (sshCAUserCerts sampleAuthority2) = length (sshCAUserCerts sampleAuthority) + length [Signer 1, Signer 2]"
    and "length (sshCAUserFederatedCerts sampleAuthority2) = length (sshCAUserFederatedCerts sampleAuthority) + length [Signer 1, Signer 2]"
    by blast+
  with 0 have 1: "length (sshCAUserCerts sampleAuthority2) = 3" "length (sshCAUserFederatedCerts sampleAuthority2) = 4"
    by simp_all
  note host = ssh_signer_options_append [of sampleLib "Signer 3" sampleAuthority "[Signer 3, Signer 4]"]
  from host sample_two_host_signers
  have "length (sshCAHostCerts sampleAuthority3) = length (sshCAHostCerts sampleAuthority) + length [Signer 3, Signer 4]"
    and "length (sshCAHostFederatedCerts sampleAuthority3) = length (sshCAHostFederatedCerts sampleAuthority) + length [Signer 3, Signer 4]"
    by blast+
  with 0 have 3: "length (sshCAHostCerts sampleAuthority3) = 2" "length (sshCAHostFederatedCerts sampleAuthority3) = 3"
    by simp_all
  from inst sample_one_signer
  have 2: "\<exists>a1. WithSSHUserSigner sampleLib (Signer 1) sampleAuthority = Inr a1 \<and>
      applyOptions [WithSSHUserSigner sampleLib (Signer 1), WithSSHUserSigner sampleLib (Signer 1)] sampleAuthority \<noteq> Inr a1"
    by blast
  from sample_two_signers sample_two_host_signers 0 1 2 3 show ?thesis by blast
qed

section \<open>Properties of api/ssh.go\<close>

subsection \<open>Roots and federation\<close>

lemma appendKeys_map: "appendKeys acc ks = acc @ map (\<lambda>k. SSHPublicKey (Some k)) ks"
  by (induction ks arbitrary: acc) simp_all

lemma SSHRoots_result:
  "GetSSHRoots auth rctx s = (Inr keys, s') \<Longrightarrow>
   SSHRoots auth rctx (s, calls) =
     ((if keys_HostKeys keys = [] \<and> keys_UserKeys keys = []
       then WriteError (NotFound ''no keys found'')
       else JSON \<lparr>UserKeys = map (\<lambda>k. SSHPublicKey (Some k)) (keys_UserKeys keys),
                  HostKeys = map (\<lambda>k. SSHPublicKey (Some k)) (keys_HostKeys keys)\<rparr>),
      (s', calls @ [GetSSHRoots_call rctx (Inr keys)]))"
  by (simp add: SSHRoots_def h_GetSSHRoots_def appendKeys_map Let_def)

lemma SSHFederation_result:
  "GetSSHFederation auth rctx s = (Inr keys, s') \<Longrightarrow>
   SSHFederation auth rctx (s, calls) =
     ((if keys_HostKeys keys = [] \<and> keys_UserKeys keys = []
       then WriteError (NotFound ''no keys found'')
       else JSON \<lparr>UserKeys = map (\<lambda>k. SSHPublicKey (Some k)) (keys_UserKeys keys),
                  HostKeys = map (\<lambda>k. SSHPublicKey (Some k)) (keys_HostKeys keys)\<rparr>),
      (s', calls @ [GetSSHFederation_call rctx (Inr keys)]))"
  by (simp add: SSHFederation_def h_GetSSHFederation_def appendKeys_map Let_def)

text \<open>
  C8. For every roots or federation query whose Authority call succeeds, the handler writes a
  not-found error (404) exactly when both the user-key list and the host-key list are empty;
  otherwise it writes a response (200) with every user key and every host key, wrapped, in
  their original order.
\<close>

theorem roots_not_found_iff_empty:
  "(\<forall>keys s'. GetSSHRoots auth rctx s = (Inr keys, s') \<longrightarrow>
      ((\<exists>e. fst (SSHRoots auth rctx (s, calls)) = WriteError e \<and> Status e = 404)
         = (keys_UserKeys keys = [] \<and> keys_HostKeys keys = [])) \<and>
      (\<not> (keys_UserKeys keys = [] \<and> keys_HostKeys keys = []) \<longrightarrow>
         fst (SSHRoots auth rctx (s, calls)) =
           JSONStatus \<lparr>UserKeys = map (\<lambda>k. SSHPublicKey (Some k)) (keys_UserKeys keys),
                       HostKeys = map (\<lambda>k. SSHPublicKey (Some k)) (keys_HostKeys keys)\<rparr> 200)) \<and>
   (\<forall>keys s'. GetSSHFederation auth rctx s = (Inr keys, s') \<longrightarrow>
      ((\<exists>e. fst (SSHFederation auth rctx (s, calls)) = WriteError e \<and> Status e = 404)
         = (keys_UserKeys keys = [] \<and> keys_HostKeys keys = [])) \<and>
      (\<not> (keys_UserKeys keys = [] \<and> keys_HostKeys keys = []) \<longrightarrow>
         fst (SSHFederation auth rctx (s, calls)) =
           JSONStatus \<lparr>UserKeys = map (\<lambda>k. SSHPublicKey (Some k)) (keys_UserKeys keys),
                       HostKeys = map (\<lambda>k. SSHPublicKey (Some k)) (keys_HostKeys keys)\<rparr> 200))"
proof -
  have roots: "\<forall>keys s'. GetSSHRoots auth rctx s = (Inr keys, s') \<longrightarrow>
      ((\<exists>e. fst (SSHRoots auth rctx (s, calls)) = WriteError e \<and> Status e = 404)
         = (keys_UserKeys keys = [] \<and> keys_HostKeys keys = [])) \<and>
      (\<not> (keys_UserKeys keys = [] \<and> keys_HostKeys keys = []) \<longrightarrow>
         fst (SSHRoots auth rctx (s, calls)) =
           JSONStatus \<lparr>UserKeys = map (\<lambda>k. SSHPublicKey (Some k)) (keys_UserKeys keys),
                       HostKeys = map (\<lambda>k. SSHPublicKey (Some k)) (keys_HostKeys keys)\<rparr> 200)"
    by (auto simp: SSHRoots_result NotFound_def JSON_def)
  have fed: "\<forall>keys s'. GetSSHFederation auth rctx s = (Inr keys, s') \<longrightarrow>
      ((\<exists>e. fst (SSHFederation auth rctx (s, calls)) = WriteError e \<and> Status e = 404)
         = (keys_UserKeys keys = [] \<and> keys_HostKeys keys = [])) \<and>
      (\<not> (keys_UserKeys keys = [] \<and> keys_HostKeys keys = []) \<longrightarrow>
         fst (SSHFederation auth rctx (s, calls)) =
           JSONStatus \<lparr>UserKeys = map (\<lambda>k. SSHPublicKey (Some k)) (keys_UserKeys keys),
                       HostKeys = map (\<lambda>k. SSHPublicKey (Some k)) (keys_HostKeys keys)\<rparr> 200)"
    by (auto simp: SSHFederation_result NotFound_def JSON_def)
  from roots fed show ?thesis by blast
qed

lemma sample_roots:
  "GetSSHRoots sampleAuth ctx used = (Inr sampleKeys, used)"
  "GetSSHFederation sampleAuth ctx used = (Inr \<lparr>keys_UserKeys = [], keys_HostKeys = []\<rparr>, used)"
  by (simp_all add: sampleAuth_def)

theorem roots_not_found_iff_empty_witness:
  "fst (SSHRoots sampleAuth sampleContext ([], [])) =
     JSONStatus \<lparr>UserKeys = [SSHPublicKey (Some (sampleKeyOf 1))],
                 HostKeys = [SSHPublicKey (Some (sampleKeyOf 2)), SSHPublicKey (Some (sampleKeyOf 3))]\<rparr> 200 \<and>
   (\<exists>e. fst (SSHFederation sampleAuth sampleContext ([], [])) = WriteError e \<and> Status e = 404)"
proof -
  note inst = roots_not_found_iff_empty [of sampleAuth sampleContext "[]" "[]"]
  from inst sample_roots(1) [of sampleContext "[]"]
  have "\<not> (keys_UserKeys sampleKeys = [] \<and> keys_HostKeys sampleKeys = []) \<longrightarrow>
     fst (SSHRoots sampleAuth sampleContext ([], [])) =
       JSONStatus \<lparr>UserKeys = map (\<lambda>k. SSHPublicKey (Some k)) (keys_UserKeys sampleKeys),
                   HostKeys = map (\<lambda>k. SSHPublicKey (Some k)) (keys_HostKeys sampleKeys)\<rparr> 200"
    by blast
  then have 1: "fst (SSHRoots sampleAuth sampleContext ([], [])) =
     JSONStatus \<lparr>UserKeys = [SSHPublicKey (Some (sampleKeyOf 1))],
                 HostKeys = [SSHPublicKey (Some (sampleKeyOf 2)), SSHPublicKey (Some (sampleKeyOf 3))]\<rparr> 200"
    by (simp add: sampleKeys_def)
  from inst sample_roots(2) [of sampleContext "[]"]
  have "(\<exists>e. fst (SSHFederation sampleAuth sampleContext ([], [])) = WriteError e \<and> Status e = 404)
         = (keys_UserKeys \<lparr>keys_UserKeys = [], keys_HostKeys = []\<rparr> = [] \<and>
            keys_HostKeys \<lparr>keys_UserKeys = [], keys_HostKeys = []\<rparr> = [])"
    by blast
  then have 2: "\<exists>e. fst (SSHFederation sampleAuth sampleContext ([], [])) = WriteError e \<and> Status e = 404"
    by simp
  from 1 2 show ?thesis by blast
qed

subsection \<open>The sign handler\<close>

lemma Validate_error_iff:
  "(\<exists>err. Validate lib s = Some err) =
     ((req_CertType s \<noteq> '''' \<and> req_CertType s \<noteq> ''user'' \<and> req_CertType s \<noteq> ''host'') \<or>
      PublicKey s = [] \<or> OTT s = '''' \<or>
      (\<exists>cr err. IdentityCSR s = Some cr \<and> CheckSignature lib cr = Some err))"
  by (auto simp: Validate_def SSHUserCert_def SSHHostCert_def split: option.splits)

lemma SSHSign_invalid:
  "Validate lib body = Some err \<Longrightarrow>
   SSHSign lib auth rctx (Inr body) w = (WriteError (errs_Error 400 err), w)"
  by (simp add: SSHSign_def BadRequestErr_def)

lemmas handler_defs = SSHSign_def SSHSign_addUser_def SSHSign_identity_def SSHSign_respond_def
  h_Authorize_def h_SignSSH_def h_SignSSHAddUser_def h_Sign_def Let_def
  BadRequestErr_def UnauthorizedErr_def ForbiddenErr_def errs_Wrap_def StatusCreated_def StatusBadRequest_def

lemma add_user_success:
  "SSHSign lib auth rctx (Inr body) (s, []) = (JSONStatus r st, (s', calls)) \<Longrightarrow>
   st = 201 \<and> (\<exists>cert. Certificate r = SSHCertificate (Some cert) \<and>
      ((AddUserCertificate r \<noteq> None) =
         (AddUserPublicKey body \<noteq> None \<and> CertType cert = ssh_UserCert \<and> length (ValidPrincipals cert) = 1)))"
  by (auto simp: handler_defs split: sum.splits option.splits prod.splits if_splits)

lemma add_user_key_parsed:
  "SSHSign lib auth rctx (Inr body) (s, []) = (JSONStatus r st, (s', calls)) \<Longrightarrow>
   AddUserPublicKey body = Some bytes \<Longrightarrow> \<exists>key. ssh_ParsePublicKey lib bytes = Inr key"
  by (auto simp: handler_defs split: sum.splits option.splits prod.splits if_splits)

lemma add_user_called_iff:
  "SSHSign lib auth rctx (Inr body) (s, []) = (out, (s', calls)) \<Longrightarrow>
   SignSSH_call ctx key opts signOpts (Inr cert) \<in> set calls \<Longrightarrow>
   (\<exists>ctx' key' c r. SignSSHAddUser_call ctx' key' c r \<in> set calls) =
     (AddUserPublicKey body \<noteq> None \<and> CertType cert = ssh_UserCert \<and> length (ValidPrincipals cert) = 1)"
  by (auto simp: handler_defs split: sum.splits option.splits prod.splits if_splits)

lemma add_user_call_args:
  "SSHSign lib auth rctx (Inr body) (s, []) = (out, (s', calls)) \<Longrightarrow>
   SignSSHAddUser_call ctx' key' c r \<in> set calls \<Longrightarrow>
   ctx' = NewContextWithMethod rctx SSHSignMethod \<and>
   (\<exists>bytes. AddUserPublicKey body = Some bytes \<and> ssh_ParsePublicKey lib bytes = Inr key') \<and>
   (\<exists>ctx key opts signOpts. SignSSH_call ctx key opts signOpts (Inr c) \<in> set calls)"
  by (auto simp: handler_defs split: sum.splits option.splits prod.splits if_splits)

lemma add_user_failure:
  "SSHSign lib auth rctx (Inr body) (s, []) = (out, (s', calls)) \<Longrightarrow>
   SignSSHAddUser_call ctx' key' c (Inl err) \<in> set calls \<Longrightarrow>
   out = WriteError (errs_Error 403 err)"
  by (auto simp: handler_defs split: sum.splits option.splits prod.splits if_splits)

lemma add_user_omitted:
  "SSHSign lib auth rctx (Inr body) (s, []) = (out, (s', calls)) \<Longrightarrow>
   SignSSH_call ctx key opts signOpts (Inr cert) \<in> set calls \<Longrightarrow>
   \<not> (AddUserPublicKey body \<noteq> None \<and> CertType cert = ssh_UserCert \<and> length (ValidPrincipals cert) = 1) \<Longrightarrow>
   IdentityCSR body = None \<Longrightarrow>
   out = JSONStatus \<lparr>Certificate = SSHCertificate (Some cert), AddUserCertificate = None,
                     IdentityCertificate = []\<rparr> 201"
  by (auto simp: handler_defs split: sum.splits option.splits prod.splits if_splits)

subsection \<open>Runs of the sign handler on the sample values\<close>

lemma sample_parse_key:
  "ssh_ParsePublicKey sampleApiLib [] = Inl (ErrorNew ''ssh: short read'')"
  "ssh_ParsePublicKey sampleApiLib (1 # blob) = Inr (PlainKey (KeyData ''ssh-ed25519'' blob))"
  "ssh_ParsePublicKey sampleApiLib (2 # blob) =
     Inr (CertificateKey (sampleSSHCert (KeyData ''ssh-ed25519'' blob) ''user'' [''alice'']))"
  by (simp_all add: sampleApiLib_def)

lemma sample_check_signature:
  "CheckSignature sampleApiLib (x509_CertificateRequest der) =
     (if der = [] then Some (ErrorNew ''x509: invalid signature'') else None)"
  by (simp add: sampleApiLib_def)

lemma sample_time_Unix: "time_Unix 1000 0 = Time 1000 0" "time_Unix 4600 0 = Time 4600 0"
  by (simp_all add: time_Unix_def)

lemma sample_Authorize:
  "Authorize sampleAuth ctx ott used =
     (if ott \<noteq> ''TOKEN-A'' \<and> ott \<noteq> ''TOKEN-S'' then (Inl (ErrorNew ''invalid token''), used)
      else if ott = ''TOKEN-S'' \<and> ctx_method ctx \<noteq> Some SSHSignMethod then
        (Inl (ErrorNew ''token not valid for this method''), used)
      else if ott \<in> set used \<and> \<not> skipTokenReuse ctx then (Inl (ErrorNew ''token already used''), used)
      else (Inr [ProvisionerOption 0], ott # used))"
  by (simp add: sampleAuth_def)

lemma sample_SignSSH:
  "SignSSH sampleAuth ctx key opts signOpts used =
     (if opt_Principals opts = [] then (Inl (ErrorNew ''principals cannot be empty''), used)
      else (Inr (sampleSSHCert (sampleKeyData key) (opt_CertType opts) (opt_Principals opts)), used))"
  by (simp add: sampleAuth_def)

lemma sample_SignSSHAddUser:
  "SignSSHAddUser sampleAuth ctx key cert used =
     (if ValidPrincipals cert = [''root''] then (Inl (ErrorNew ''principal not allowed''), used)
      else (Inr (cert\<lparr>Key := sampleKeyData key\<rparr>), used))"
  by (simp add: sampleAuth_def)

lemma sample_Sign:
  "Sign sampleAuth cr opts signOpts used =
     (if take 1 (csrRaw cr) = [0] then (Inl (ErrorNew ''certificate request denied''), used)
      else (Inr [sampleRunOptions signOpts sampleCert, sampleCert], used))"
  by (simp add: sampleAuth_def)

lemmas sample_simps = sample_parse_key sample_check_signature sample_time_Unix sample_Authorize
  sample_SignSSH sample_SignSSHAddUser sample_Sign
  Validate_def SSHUserCert_def SSHHostCert_def
  sampleRequest_def sampleContext_def sampleContext1_def sampleContext2_def sampleOptions_def
  NewContextWithMethod_def NewContextWithSkipTokenReuse_def sampleSSHCert_def sampleKeyData_def
  ssh_UserCert_def ssh_HostCert_def certChainToPEM_def sampleModifier_def sampleLeaf_def
  sampleCert_def Enforce_def

text \<open>Scenarios 2 and 4 of the spec together: add-user key and identity CSR.\<close>

lemma sample_run_full:
  "SSHSign sampleApiLib sampleAuth sampleContext (Inr sampleRequest) ([], []) =
     (JSONStatus
        \<lparr>Certificate = SSHCertificate (Some (sampleSSHCert (KeyData ''ssh-ed25519'' [7]) ''user'' [''alice''])),
         AddUserCertificate = Some (SSHCertificate (Some (sampleSSHCert (KeyData ''ssh-ed25519'' [9]) ''user'' [''alice'']))),
         IdentityCertificate = [api_Certificate sampleLeaf, api_Certificate sampleCert]\<rparr> 201,
      ([''TOKEN-A'', ''TOKEN-A''],
       [Authorize_call sampleContext1 ''TOKEN-A'' (Inr [ProvisionerOption 0]),
        SignSSH_call sampleContext1 (PlainKey (KeyData ''ssh-ed25519'' [7])) (sampleOptions [''alice''])
          [ProvisionerOption 0] (Inr (sampleSSHCert (KeyData ''ssh-ed25519'' [7]) ''user'' [''alice''])),
        SignSSHAddUser_call sampleContext1 (PlainKey (KeyData ''ssh-ed25519'' [9]))
          (sampleSSHCert (KeyData ''ssh-ed25519'' [7]) ''user'' [''alice''])
          (Inr (sampleSSHCert (KeyData ''ssh-ed25519'' [9]) ''user'' [''alice''])),
        Authorize_call sampleContext2 ''TOKEN-A'' (Inr [ProvisionerOption 0]),
        Sign_call (x509_CertificateRequest [48]) provisioner_Options_zero
          [ProvisionerOption 0, sampleModifier] (Inr [sampleLeaf, sampleCert])]))"
  by (simp add: handler_defs sample_simps)

text \<open>Scenario 3: two principals, no identity CSR.\<close>

lemma sample_run_two_principals:
  "SSHSign sampleApiLib sampleAuth sampleContext
     (Inr (sampleRequest\<lparr>Principals := [''alice'', ''bob''], IdentityCSR := None\<rparr>)) ([], []) =
     (JSONStatus
        \<lparr>Certificate = SSHCertificate (Some (sampleSSHCert (KeyData ''ssh-ed25519'' [7]) ''user'' [''alice'', ''bob''])),
         AddUserCertificate = None,
         IdentityCertificate = []\<rparr> 201,
      ([''TOKEN-A''],
       [Authorize_call sampleContext1 ''TOKEN-A'' (Inr [ProvisionerOption 0]),
        SignSSH_call sampleContext1 (PlainKey (KeyData ''ssh-ed25519'' [7])) (sampleOptions [''alice'', ''bob''])
          [ProvisionerOption 0] (Inr (sampleSSHCert (KeyData ''ssh-ed25519'' [7]) ''user'' [''alice'', ''bob'']))]))"
  by (simp add: handler_defs sample_simps)

text \<open>The add-user certificate is refused for the principal \<open>root\<close>.\<close>

lemma sample_run_add_user_refused:
  "SSHSign sampleApiLib sampleAuth sampleContext
     (Inr (sampleRequest\<lparr>Principals := [''root'']\<rparr>)) ([], []) =
     (WriteError (errs_Error 403 (ErrorNew ''principal not allowed'')),
      ([''TOKEN-A''],
       [Authorize_call sampleContext1 ''TOKEN-A'' (Inr [ProvisionerOption 0]),
        SignSSH_call sampleContext1 (PlainKey (KeyData ''ssh-ed25519'' [7])) (sampleOptions [''root''])
          [ProvisionerOption 0] (Inr (sampleSSHCert (KeyData ''ssh-ed25519'' [7]) ''user'' [''root''])),
        SignSSHAddUser_call sampleContext1 (PlainKey (KeyData ''ssh-ed25519'' [9]))
          (sampleSSHCert (KeyData ''ssh-ed25519'' [7]) ''user'' [''root''])
          (Inl (ErrorNew ''principal not allowed''))]))"
  by (simp add: handler_defs sample_simps)

text \<open>A token that the second \<^verbatim>\<open>Authorize\<close> refuses.\<close>

lemma sample_run_second_authorize_refused:
  "SSHSign sampleApiLib sampleAuth sampleContext
     (Inr (sampleRequest\<lparr>OTT := ''TOKEN-S'', AddUserPublicKey := None\<rparr>)) ([], []) =
     (WriteError (errs_Error 401 (ErrorNew ''token not valid for this method'')),
      ([''TOKEN-S''],
       [Authorize_call sampleContext1 ''TOKEN-S'' (Inr [ProvisionerOption 0]),
        SignSSH_call sampleContext1 (PlainKey (KeyData ''ssh-ed25519'' [7])) (sampleOptions [''alice''])
          [ProvisionerOption 0] (Inr (sampleSSHCert (KeyData ''ssh-ed25519'' [7]) ''user'' [''alice''])),
        Authorize_call sampleContext2 ''TOKEN-S'' (Inl (ErrorNew ''token not valid for this method''))]))"
  by (simp add: handler_defs sample_simps)

text \<open>A token that the first \<^verbatim>\<open>Authorize\<close> refuses, with an identity CSR in the request.\<close>

lemma sample_run_first_authorize_refused:
  "SSHSign sampleApiLib sampleAuth sampleContext
     (Inr (sampleRequest\<lparr>OTT := ''TOKEN-B''\<rparr>)) ([], []) =
     (WriteError (errs_Error 401 (ErrorNew ''invalid token'')),
      ([], [Authorize_call sampleContext1 ''TOKEN-B'' (Inl (ErrorNew ''invalid token''))]))"
  by (simp add: handler_defs sample_simps)

text \<open>An empty token: the request is refused by \<^verbatim>\<open>Validate\<close>.\<close>

lemma sample_run_empty_ott:
  "SSHSign sampleApiLib sampleAuth sampleContext
     (Inr (sampleRequest\<lparr>OTT := ''''\<rparr>)) ([], []) =
     (WriteError (errs_Error 400 (ErrorNew ''missing or empty ott'')), ([], []))"
  by (simp add: handler_defs sample_simps)

subsection \<open>Validation\<close>

text \<open>
  C5. \<^verbatim>\<open>Validate\<close> returns an error exactly when the certType is non-empty and neither
  \<open>user\<close> nor \<open>host\<close>, or the publicKey is empty, or the ott is empty, or an identityCSR is
  present whose signature check fails. On such an error the handler writes the error with
  status 400 and leaves the world as it was: no call on the Authority (which is where
  \<^verbatim>\<open>Authorize\<close>, \<^verbatim>\<open>SignSSH\<close> and every use of a signing key happen) is made.
\<close>

theorem validate_rejects:
  "((\<exists>err. Validate lib body = Some err) =
      ((req_CertType body \<noteq> '''' \<and> req_CertType body \<noteq> ''user'' \<and> req_CertType body \<noteq> ''host'') \<or>
       PublicKey body = [] \<or> OTT body = '''' \<or>
       (\<exists>cr err. IdentityCSR body = Some cr \<and> CheckSignature lib cr = Some err))) \<and>
   (\<forall>err. Validate lib body = Some err \<longrightarrow>
      SSHSign lib auth rctx (Inr body) (s, calls) = (WriteError (errs_Error 400 err), (s, calls)))"
  using Validate_error_iff [of lib body] SSHSign_invalid [of lib body _ auth rctx "(s, calls)"]
  by blast

lemma sample_validate_empty_ott:
  "Validate sampleApiLib (sampleRequest\<lparr>OTT := ''''\<rparr>) = Some (ErrorNew ''missing or empty ott'')"
  by (simp add: sample_simps)

lemma sample_validate_bad_csr:
  "Validate sampleApiLib (sampleRequest\<lparr>IdentityCSR := Some (x509_CertificateRequest [])\<rparr>) =
     Some (ErrorWrap (ErrorNew ''x509: invalid signature'') ''invalid identityCSR'')"
  by (simp add: sample_simps)

lemma sample_validate_ok: "Validate sampleApiLib sampleRequest = None"
  by (simp add: sample_simps)

theorem validate_rejects_witness:
  "Validate sampleApiLib (sampleRequest\<lparr>OTT := ''''\<rparr>) = Some (ErrorNew ''missing or empty ott'') \<and>
   SSHSign sampleApiLib sampleAuth sampleContext (Inr (sampleRequest\<lparr>OTT := ''''\<rparr>)) ([], []) =
     (WriteError (errs_Error 400 (ErrorNew ''missing or empty ott'')), ([], [])) \<and>
   SSHSign sampleApiLib sampleAuth sampleContext
       (Inr (sampleRequest\<lparr>IdentityCSR := Some (x509_CertificateRequest [])\<rparr>)) ([], []) =
     (WriteError (errs_Error 400 (ErrorWrap (ErrorNew ''x509: invalid signature'') ''invalid identityCSR'')),
      ([], [])) \<and>
   Validate sampleApiLib sampleRequest = None \<and>
   \<not> ((req_CertType sampleRequest \<noteq> '''' \<and> req_CertType sampleRequest \<noteq> ''user'' \<and> req_CertType sampleRequest \<noteq> ''host'') \<or>
       PublicKey sampleRequest = [] \<or> OTT sampleRequest = '''' \<or>
       (\<exists>cr err. IdentityCSR sampleRequest = Some cr \<and> CheckSignature sampleApiLib cr = Some err))"
proof -
  from validate_rejects [of sampleApiLib "sampleRequest\<lparr>OTT := ''''\<rparr>" sampleAuth sampleContext "[]" "[]"]
    sample_validate_empty_ott
  have 1: "SSHSign sampleApiLib sampleAuth sampleContext (Inr (sampleRequest\<lparr>OTT := ''''\<rparr>)) ([], []) =
     (WriteError (errs_Error 400 (ErrorNew ''missing or empty ott'')), ([], []))"
    by blast
  from validate_rejects [of sampleApiLib "sampleRequest\<lparr>IdentityCSR := Some (x509_CertificateRequest [])\<rparr>"
      sampleAuth sampleContext "[]" "[]"]
    sample_validate_bad_csr
  have 2: "SSHSign sampleApiLib sampleAuth sampleContext
       (Inr (sampleRequest\<lparr>IdentityCSR := Some (x509_CertificateRequest [])\<rparr>)) ([], []) =
     (WriteError (errs_Error 400 (ErrorWrap (ErrorNew ''x509: invalid signature'') ''invalid identityCSR'')),
      ([], []))"
    by blast
  from validate_rejects [of sampleApiLib sampleRequest sampleAuth sampleContext "[]" "[]"]
    sample_validate_ok
  have 3: "\<not> ((req_CertType sampleRequest \<noteq> '''' \<and> req_CertType sampleRequest \<noteq> ''user'' \<and> req_CertType sampleRequest \<noteq> ''host'') \<or>
       PublicKey sampleRequest = [] \<or> OTT sampleRequest = '''' \<or>
       (\<exists>cr err. IdentityCSR sampleRequest = Some cr \<and> CheckSignature sampleApiLib cr = Some err))"
    by (metis option.distinct(1))
  from 1 2 3 sample_validate_empty_ott sample_validate_ok show ?thesis by blast
qed

subsection \<open>The add-user certificate\<close>

text \<open>
  C1. Take any run of the sign handler on a decoded body. If it ends with a response, the
  status is 201 and the response has an add-user certificate exactly when the request carried
  an \<^verbatim>\<open>addUserPublicKey\<close> (not nil; non-empty, as \<^verbatim>\<open>ssh.ParsePublicKey\<close> rejects the empty
  input), the signed certificate is a user certificate and it has exactly one valid principal.
  Once \<^verbatim>\<open>SignSSH\<close> has returned a certificate, \<^verbatim>\<open>SignSSHAddUser\<close> is called exactly under
  these three conditions; when one fails nothing is called and no error arises from the
  omission (without an identity CSR the response is written, without the add-user
  certificate). When \<^verbatim>\<open>SignSSHAddUser\<close> is called and fails, the handler writes its error
  with status 403.
\<close>

theorem add_user_certificate_iff:
  assumes "SSHSign lib auth rctx (Inr body) (s, []) = (out, (s', calls))"
  shows
  "(\<forall>r st. out = JSONStatus r st \<longrightarrow>
      st = 201 \<and>
      (\<exists>cert. Certificate r = SSHCertificate (Some cert) \<and>
         ((AddUserCertificate r \<noteq> None) =
            (AddUserPublicKey body \<noteq> None \<and> CertType cert = ssh_UserCert \<and>
             length (ValidPrincipals cert) = 1)) \<and>
         (isl (ssh_ParsePublicKey lib []) \<longrightarrow>
            ((AddUserCertificate r \<noteq> None) =
               ((\<exists>bytes. AddUserPublicKey body = Some bytes \<and> bytes \<noteq> []) \<and>
                CertType cert = ssh_UserCert \<and> length (ValidPrincipals cert) = 1))))) \<and>
   (\<forall>ctx key opts signOpts cert.
      SignSSH_call ctx key opts signOpts (Inr cert) \<in> set calls \<longrightarrow>
        ((\<exists>ctx' key' c r. SignSSHAddUser_call ctx' key' c r \<in> set calls) =
           (AddUserPublicKey body \<noteq> None \<and> CertType cert = ssh_UserCert \<and>
            length (ValidPrincipals cert) = 1)) \<and>
        (\<not> (AddUserPublicKey body \<noteq> None \<and> CertType cert = ssh_UserCert \<and>
             length (ValidPrincipals cert) = 1) \<and> IdentityCSR body = None \<longrightarrow>
           out = JSONStatus \<lparr>Certificate = SSHCertificate (Some cert), AddUserCertificate = None,
                             IdentityCertificate = []\<rparr> 201)) \<and>
   (\<forall>ctx' key' c r.
      SignSSHAddUser_call ctx' key' c r \<in> set calls \<longrightarrow>
        ctx' = NewContextWithMethod rctx SSHSignMethod \<and>
        (\<exists>bytes. AddUserPublicKey body = Some bytes \<and> ssh_ParsePublicKey lib bytes = Inr key') \<and>
        (\<exists>ctx key opts signOpts. SignSSH_call ctx key opts signOpts (Inr c) \<in> set calls) \<and>
        (\<forall>err. r = Inl err \<longrightarrow> out = WriteError (errs_Error 403 err)))"
proof -
  have success: "\<forall>r st. out = JSONStatus r st \<longrightarrow>
      st = 201 \<and>
      (\<exists>cert. Certificate r = SSHCertificate (Some cert) \<and>
         ((AddUserCertificate r \<noteq> None) =
            (AddUserPublicKey body \<noteq> None \<and> CertType cert = ssh_UserCert \<and>
             length (ValidPrincipals cert) = 1)) \<and>
         (isl (ssh_ParsePublicKey lib []) \<longrightarrow>
            ((AddUserCertificate r \<noteq> None) =
               ((\<exists>bytes. AddUserPublicKey body = Some bytes \<and> bytes \<noteq> []) \<and>
                CertType cert = ssh_UserCert \<and> length (ValidPrincipals cert) = 1))))"
  proof (intro allI impI)
    fix r st assume out: "out = JSONStatus r st"
    from add_user_success [OF assms [unfolded out]] obtain cert where
      st: "st = 201" and cert: "Certificate r = SSHCertificate (Some cert)"
      and iff: "(AddUserCertificate r \<noteq> None) =
            (AddUserPublicKey body \<noteq> None \<and> CertType cert = ssh_UserCert \<and>
             length (ValidPrincipals cert) = 1)"
      by blast
    have nonempty: "isl (ssh_ParsePublicKey lib []) \<longrightarrow>
        (AddUserPublicKey body \<noteq> None) = (\<exists>bytes. AddUserPublicKey body = Some bytes \<and> bytes \<noteq> [])"
      using add_user_key_parsed [OF assms [unfolded out]] by (cases "AddUserPublicKey body") auto
    from st cert iff nonempty
    show "st = 201 \<and>
      (\<exists>cert. Certificate r = SSHCertificate (Some cert) \<and>
         ((AddUserCertificate r \<noteq> None) =
            (AddUserPublicKey body \<noteq> None \<and> CertType cert = ssh_UserCert \<and>
             length (ValidPrincipals cert) = 1)) \<and>
         (isl (ssh_ParsePublicKey lib []) \<longrightarrow>
            ((AddUserCertificate r \<noteq> None) =
               ((\<exists>bytes. AddUserPublicKey body = Some bytes \<and> bytes \<noteq> []) \<and>
                CertType cert = ssh_UserCert \<and> length (ValidPrincipals cert) = 1))))"
      by auto
  qed
  have called: "\<forall>ctx key opts signOpts cert.
      SignSSH_call ctx key opts signOpts (Inr cert) \<in> set calls \<longrightarrow>
        ((\<exists>ctx' key' c r. SignSSHAddUser_call ctx' key' c r \<in> set calls) =
           (AddUserPublicKey body \<noteq> None \<and> CertType cert = ssh_UserCert \<and>
            length (ValidPrincipals cert) = 1)) \<and>
        (\<not> (AddUserPublicKey body \<noteq> None \<and> CertType cert = ssh_UserCert \<and>
             length (ValidPrincipals cert) = 1) \<and> IdentityCSR body = None \<longrightarrow>
           out = JSONStatus \<lparr>Certificate = SSHCertificate (Some cert), AddUserCertificate = None,
                             IdentityCertificate = []\<rparr> 201)"
    using add_user_called_iff [OF assms] add_user_omitted [OF assms] by blast
  have failure: "\<forall>ctx' key' c r.
      SignSSHAddUser_call ctx' key' c r \<in> set calls \<longrightarrow>
        ctx' = NewContextWithMethod rctx SSHSignMethod \<and>
        (\<exists>bytes. AddUserPublicKey body = Some bytes \<and> ssh_ParsePublicKey lib bytes = Inr key') \<and>
        (\<exists>ctx key opts signOpts. SignSSH_call ctx key opts signOpts (Inr c) \<in> set calls) \<and>
        (\<forall>err. r = Inl err \<longrightarrow> out = WriteError (errs_Error 403 err))"
    using add_user_call_args [OF assms] add_user_failure [OF assms] by blast
  from success called failure show ?thesis by blast
qed


theorem add_user_certificate_iff_witness:
  "isl (ssh_ParsePublicKey sampleApiLib []) \<and>
   (\<exists>r. fst (SSHSign sampleApiLib sampleAuth sampleContext (Inr sampleRequest) ([], [])) = JSONStatus r 201 \<and>
        AddUserCertificate r \<noteq> None \<and>
        (\<exists>bytes. AddUserPublicKey sampleRequest = Some bytes \<and> bytes \<noteq> [])) \<and>
   (\<exists>r. fst (SSHSign sampleApiLib sampleAuth sampleContext
              (Inr (sampleRequest\<lparr>Principals := [''alice'', ''bob''], IdentityCSR := None\<rparr>)) ([], []))
          = JSONStatus r 201 \<and>
        AddUserCertificate r = None) \<and>
   fst (SSHSign sampleApiLib sampleAuth sampleContext (Inr (sampleRequest\<lparr>Principals := [''root'']\<rparr>)) ([], []))
     = WriteError (errs_Error 403 (ErrorNew ''principal not allowed''))"
proof -
  have short: "isl (ssh_ParsePublicKey sampleApiLib [])"
    by (simp add: sample_parse_key)
  note full = add_user_certificate_iff [OF sample_run_full, THEN conjunct1, rule_format, OF refl]
  from full short have 1: "\<exists>bytes. AddUserPublicKey sampleRequest = Some bytes \<and> bytes \<noteq> []"
    by auto
  have 2: "\<exists>r. fst (SSHSign sampleApiLib sampleAuth sampleContext (Inr sampleRequest) ([], [])) = JSONStatus r 201 \<and>
        AddUserCertificate r \<noteq> None \<and>
        (\<exists>bytes. AddUserPublicKey sampleRequest = Some bytes \<and> bytes \<noteq> [])"
    using 1 by (simp add: sample_run_full)
  have sshcall: "SignSSH_call sampleContext1 (PlainKey (KeyData ''ssh-ed25519'' [7])) (sampleOptions [''alice'', ''bob''])
          [ProvisionerOption 0] (Inr (sampleSSHCert (KeyData ''ssh-ed25519'' [7]) ''user'' [''alice'', ''bob'']))
        \<in> set [Authorize_call sampleContext1 ''TOKEN-A'' (Inr [ProvisionerOption 0]),
        SignSSH_call sampleContext1 (PlainKey (KeyData ''ssh-ed25519'' [7])) (sampleOptions [''alice'', ''bob''])
          [ProvisionerOption 0] (Inr (sampleSSHCert (KeyData ''ssh-ed25519'' [7]) ''user'' [''alice'', ''bob'']))]"
    by simp
  have conds: "\<not> (AddUserPublicKey (sampleRequest\<lparr>Principals := [''alice'', ''bob''], IdentityCSR := None\<rparr>) \<noteq> None \<and>
       CertType (sampleSSHCert (KeyData ''ssh-ed25519'' [7]) ''user'' [''alice'', ''bob'']) = ssh_UserCert \<and>
       length (ValidPrincipals (sampleSSHCert (KeyData ''ssh-ed25519'' [7]) ''user'' [''alice'', ''bob''])) = 1) \<and>
     IdentityCSR (sampleRequest\<lparr>Principals := [''alice'', ''bob''], IdentityCSR := None\<rparr>) = None"
    by (simp add: sampleSSHCert_def)
  note two = add_user_certificate_iff [OF sample_run_two_principals, THEN conjunct2, THEN conjunct1,
      rule_format, OF sshcall, THEN conjunct2, rule_format, OF conds]
  have 3: "\<exists>r. fst (SSHSign sampleApiLib sampleAuth sampleContext
              (Inr (sampleRequest\<lparr>Principals := [''alice'', ''bob''], IdentityCSR := None\<rparr>)) ([], []))
          = JSONStatus r 201 \<and> AddUserCertificate r = None"
    using two by (simp add: sample_run_two_principals)
  have addcall: "SignSSHAddUser_call sampleContext1 (PlainKey (KeyData ''ssh-ed25519'' [9]))
          (sampleSSHCert (KeyData ''ssh-ed25519'' [7]) ''user'' [''root''])
          (Inl (ErrorNew ''principal not allowed''))
       \<in> set [Authorize_call sampleContext1 ''TOKEN-A'' (Inr [ProvisionerOption 0]),
        SignSSH_call sampleContext1 (PlainKey (KeyData ''ssh-ed25519'' [7])) (sampleOptions [''root''])
          [ProvisionerOption 0] (Inr (sampleSSHCert (KeyData ''ssh-ed25519'' [7]) ''user'' [''root''])),
        SignSSHAddUser_call sampleContext1 (PlainKey (KeyData ''ssh-ed25519'' [9]))
          (sampleSSHCert (KeyData ''ssh-ed25519'' [7]) ''user'' [''root''])
          (Inl (ErrorNew ''principal not allowed''))]"
    by simp
  note refused = add_user_certificate_iff [OF sample_run_add_user_refused, THEN conjunct2, THEN conjunct2,
      rule_format, OF addcall, THEN conjunct2, THEN conjunct2, THEN conjunct2, rule_format, OF refl]
  have 4: "fst (SSHSign sampleApiLib sampleAuth sampleContext (Inr (sampleRequest\<lparr>Principals := [''root'']\<rparr>)) ([], []))
     = WriteError (errs_Error 403 (ErrorNew ''principal not allowed''))"
    using refused by (simp add: sample_run_add_user_refused)
  from short 2 3 4 show ?thesis by blast
qed

subsection \<open>The identity certificate\<close>

lemmas trace_defs = authorizeCalls_def reachesIdentity_def

lemma authorize_calls_shape:
  "SSHSign lib auth rctx (Inr body) (s, []) = (out, (s', calls)) \<Longrightarrow>
   authorizeCalls calls = [] \<or>
   (\<exists>r1. authorizeCalls calls = [Authorize_call (NewContextWithMethod rctx SSHSignMethod) (OTT body) r1]) \<or>
   (\<exists>signOpts r2. authorizeCalls calls =
       [Authorize_call (NewContextWithMethod rctx SSHSignMethod) (OTT body) (Inr signOpts),
        Authorize_call (NewContextWithMethod (NewContextWithSkipTokenReuse rctx) SignMethod) (OTT body) r2])"
  by (auto simp: handler_defs trace_defs split: sum.splits option.splits prod.splits if_splits)

lemma second_authorize_iff:
  "SSHSign lib auth rctx (Inr body) (s, []) = (out, (s', calls)) \<Longrightarrow>
   (length (authorizeCalls calls) = 2) = (IdentityCSR body \<noteq> None \<and> reachesIdentity calls)"
  by (auto simp: handler_defs trace_defs split: sum.splits option.splits prod.splits if_splits)

lemma success_reaches_identity:
  "SSHSign lib auth rctx (Inr body) (s, []) = (JSONStatus r st, (s', calls)) \<Longrightarrow>
   reachesIdentity calls"
  by (auto simp: handler_defs trace_defs split: sum.splits option.splits prod.splits if_splits)

lemma second_authorize_failure:
  "SSHSign lib auth rctx (Inr body) (s, []) = (out, (s', calls)) \<Longrightarrow>
   authorizeCalls calls = [a1, Authorize_call ctx ott (Inl err)] \<Longrightarrow>
   out = WriteError (errs_Error 401 err) \<and> last calls = Authorize_call ctx ott (Inl err)"
  by (auto simp: handler_defs trace_defs split: sum.splits option.splits prod.splits if_splits)





lemma identity_block_authorize:
  "SSHSign_identity auth rctx body cert addUserCertificate (s, []) = (out, (s', calls)) \<Longrightarrow>
   ((authorizeCalls calls \<noteq> []) = (IdentityCSR body \<noteq> None)) \<and>
   (\<forall>c \<in> set (authorizeCalls calls). \<exists>r. c =
       Authorize_call (NewContextWithMethod (NewContextWithSkipTokenReuse rctx) SignMethod) (OTT body) r) \<and>
   length (authorizeCalls calls) \<le> 1 \<and>
   (\<forall>ctx ott err. Authorize_call ctx ott (Inl err) \<in> set calls \<longrightarrow>
      out = WriteError (errs_Error 401 err))"
  by (auto simp: handler_defs trace_defs split: sum.splits option.splits prod.splits if_splits)

text \<open>
  C4 (amended). In every run of the sign handler there are at most two \<^verbatim>\<open>Authorize\<close>
  calls, both with the request's token: the first under the request context marked \<^verbatim>\<open>SSHSignMethod\<close>, the
  second under a context derived from the request context itself, carrying the
  \<^verbatim>\<open>SkipTokenReuse\<close> marker and the method marker \<^verbatim>\<open>SignMethod\<close>. Whenever control reaches
  the identity block, that block calls \<^verbatim>\<open>Authorize\<close> exactly when the request carried a
  non-nil identityCSR; over a whole run the second call happens exactly when the identityCSR
  is non-nil and the identity block is reached, and on every run that ends in a response
  exactly when the identityCSR is non-nil. When the second call fails it is the last call
  of the run and the handler writes its error with status 401, so no certificate is written.
\<close>

theorem second_authorize:
  assumes "SSHSign lib auth rctx (Inr body) (s, []) = (out, (s', calls))"
  shows
  "(authorizeCalls calls = [] \<or>
    (\<exists>r1. authorizeCalls calls = [Authorize_call (NewContextWithMethod rctx SSHSignMethod) (OTT body) r1]) \<or>
    (\<exists>signOpts r2. authorizeCalls calls =
       [Authorize_call (NewContextWithMethod rctx SSHSignMethod) (OTT body) (Inr signOpts),
        Authorize_call (NewContextWithMethod (NewContextWithSkipTokenReuse rctx) SignMethod) (OTT body) r2])) \<and>
   ((length (authorizeCalls calls) = 2) = (IdentityCSR body \<noteq> None \<and> reachesIdentity calls)) \<and>
   (\<forall>r st. out = JSONStatus r st \<longrightarrow>
      ((length (authorizeCalls calls) = 2) = (IdentityCSR body \<noteq> None))) \<and>
   (\<forall>a1 ctx ott err. authorizeCalls calls = [a1, Authorize_call ctx ott (Inl err)] \<longrightarrow>
      out = WriteError (errs_Error 401 err) \<and> last calls = Authorize_call ctx ott (Inl err)) \<and>
   (\<forall>cert addUserCertificate s1 out1 s1' calls1.
      SSHSign_identity auth rctx body cert addUserCertificate (s1, []) = (out1, (s1', calls1)) \<longrightarrow>
        ((authorizeCalls calls1 \<noteq> []) = (IdentityCSR body \<noteq> None)) \<and>
        (\<forall>c \<in> set (authorizeCalls calls1). \<exists>r. c =
           Authorize_call (NewContextWithMethod (NewContextWithSkipTokenReuse rctx) SignMethod) (OTT body) r) \<and>
        length (authorizeCalls calls1) \<le> 1 \<and>
        (\<forall>ctx ott err. Authorize_call ctx ott (Inl err) \<in> set calls1 \<longrightarrow>
           out1 = WriteError (errs_Error 401 err))) \<and>
   skipTokenReuse (NewContextWithMethod (NewContextWithSkipTokenReuse rctx) SignMethod) \<and>
   ctx_method (NewContextWithMethod (NewContextWithSkipTokenReuse rctx) SignMethod) = Some SignMethod \<and>
   ctx_method (NewContextWithMethod rctx SSHSignMethod) = Some SSHSignMethod \<and>
   skipTokenReuse (NewContextWithMethod rctx SSHSignMethod) = skipTokenReuse rctx"
proof -
  note shape = authorize_calls_shape [OF assms]
  note iff = second_authorize_iff [OF assms]
  have success: "\<forall>r st. out = JSONStatus r st \<longrightarrow>
      ((length (authorizeCalls calls) = 2) = (IdentityCSR body \<noteq> None))"
  proof (intro allI impI)
    fix r st assume out: "out = JSONStatus r st"
    from success_reaches_identity [OF assms [unfolded out]] have "reachesIdentity calls" .
    with iff show "(length (authorizeCalls calls) = 2) = (IdentityCSR body \<noteq> None)" by simp
  qed
  have failure: "\<forall>a1 ctx ott err. authorizeCalls calls = [a1, Authorize_call ctx ott (Inl err)] \<longrightarrow>
      out = WriteError (errs_Error 401 err) \<and> last calls = Authorize_call ctx ott (Inl err)"
    using second_authorize_failure [OF assms] by blast
  have block: "\<forall>cert addUserCertificate s1 out1 s1' calls1.
      SSHSign_identity auth rctx body cert addUserCertificate (s1, []) = (out1, (s1', calls1)) \<longrightarrow>
        ((authorizeCalls calls1 \<noteq> []) = (IdentityCSR body \<noteq> None)) \<and>
        (\<forall>c \<in> set (authorizeCalls calls1). \<exists>r. c =
           Authorize_call (NewContextWithMethod (NewContextWithSkipTokenReuse rctx) SignMethod) (OTT body) r) \<and>
        length (authorizeCalls calls1) \<le> 1 \<and>
        (\<forall>ctx ott err. Authorize_call ctx ott (Inl err) \<in> set calls1 \<longrightarrow>
           out1 = WriteError (errs_Error 401 err))"
    by (intro allI impI identity_block_authorize)
  have ctx: "skipTokenReuse (NewContextWithMethod (NewContextWithSkipTokenReuse rctx) SignMethod) \<and>
   ctx_method (NewContextWithMethod (NewContextWithSkipTokenReuse rctx) SignMethod) = Some SignMethod \<and>
   ctx_method (NewContextWithMethod rctx SSHSignMethod) = Some SSHSignMethod \<and>
   skipTokenReuse (NewContextWithMethod rctx SSHSignMethod) = skipTokenReuse rctx"
    by (simp add: NewContextWithMethod_def NewContextWithSkipTokenReuse_def)
  from shape iff success failure block ctx show ?thesis by blast
qed


theorem second_authorize_witness:
  "length (authorizeCalls (snd (snd
      (SSHSign sampleApiLib sampleAuth sampleContext (Inr sampleRequest) ([], []))))) = 2 \<and>
   IdentityCSR sampleRequest \<noteq> None \<and>
   length (authorizeCalls (snd (snd
      (SSHSign sampleApiLib sampleAuth sampleContext
         (Inr (sampleRequest\<lparr>Principals := [''alice'', ''bob''], IdentityCSR := None\<rparr>)) ([], []))))) \<noteq> 2 \<and>
   fst (SSHSign sampleApiLib sampleAuth sampleContext
         (Inr (sampleRequest\<lparr>OTT := ''TOKEN-S'', AddUserPublicKey := None\<rparr>)) ([], []))
     = WriteError (errs_Error 401 (ErrorNew ''token not valid for this method'')) \<and>
   IdentityCSR (sampleRequest\<lparr>OTT := ''TOKEN-B''\<rparr>) \<noteq> None \<and>
   length (authorizeCalls (snd (snd
      (SSHSign sampleApiLib sampleAuth sampleContext (Inr (sampleRequest\<lparr>OTT := ''TOKEN-B''\<rparr>)) ([], []))))) = 1 \<and>
   \<not> reachesIdentity (snd (snd
      (SSHSign sampleApiLib sampleAuth sampleContext (Inr (sampleRequest\<lparr>OTT := ''TOKEN-B''\<rparr>)) ([], []))))"
proof -
  have csr: "IdentityCSR sampleRequest \<noteq> None" by (simp add: sampleRequest_def)
  note full = second_authorize [OF sample_run_full, THEN conjunct2, THEN conjunct2, THEN conjunct1,
      rule_format, OF refl]
  from full csr have 1: "length (authorizeCalls (snd (snd
      (SSHSign sampleApiLib sampleAuth sampleContext (Inr sampleRequest) ([], []))))) = 2"
    by (simp add: sample_run_full)
  note two = second_authorize [OF sample_run_two_principals, THEN conjunct2, THEN conjunct2,
      THEN conjunct1, rule_format, OF refl]
  from two have 2: "length (authorizeCalls (snd (snd
      (SSHSign sampleApiLib sampleAuth sampleContext
         (Inr (sampleRequest\<lparr>Principals := [''alice'', ''bob''], IdentityCSR := None\<rparr>)) ([], []))))) \<noteq> 2"
    by (simp add: sample_run_two_principals)
  have calls: "authorizeCalls
       [Authorize_call sampleContext1 ''TOKEN-S'' (Inr [ProvisionerOption 0]),
        SignSSH_call sampleContext1 (PlainKey (KeyData ''ssh-ed25519'' [7])) (sampleOptions [''alice''])
          [ProvisionerOption 0] (Inr (sampleSSHCert (KeyData ''ssh-ed25519'' [7]) ''user'' [''alice''])),
        Authorize_call sampleContext2 ''TOKEN-S'' (Inl (ErrorNew ''token not valid for this method''))]
     = [Authorize_call sampleContext1 ''TOKEN-S'' (Inr [ProvisionerOption (0::nat)]),
        Authorize_call sampleContext2 ''TOKEN-S'' (Inl (ErrorNew ''token not valid for this method''))]"
    by (simp add: authorizeCalls_def)
  note refused = second_authorize [OF sample_run_second_authorize_refused, THEN conjunct2, THEN conjunct2,
      THEN conjunct2, THEN conjunct1, rule_format, OF calls, THEN conjunct1]
  from refused have 3: "fst (SSHSign sampleApiLib sampleAuth sampleContext
         (Inr (sampleRequest\<lparr>OTT := ''TOKEN-S'', AddUserPublicKey := None\<rparr>)) ([], []))
     = WriteError (errs_Error 401 (ErrorNew ''token not valid for this method''))"
    by (simp add: sample_run_second_authorize_refused)
  have csrB: "IdentityCSR (sampleRequest\<lparr>OTT := ''TOKEN-B''\<rparr>) \<noteq> None"
    by (simp add: sampleRequest_def)
  have 4: "length (authorizeCalls (snd (snd
      (SSHSign sampleApiLib sampleAuth sampleContext (Inr (sampleRequest\<lparr>OTT := ''TOKEN-B''\<rparr>)) ([], []))))) = 1"
    by (simp add: sample_run_first_authorize_refused authorizeCalls_def)
  note first = second_authorize [OF sample_run_first_authorize_refused, THEN conjunct2, THEN conjunct1]
  from first csrB have 5: "\<not> reachesIdentity (snd (snd
      (SSHSign sampleApiLib sampleAuth sampleContext (Inr (sampleRequest\<lparr>OTT := ''TOKEN-B''\<rparr>)) ([], []))))"
    by (auto simp: sample_run_first_authorize_refused authorizeCalls_def)
  from 1 csr 2 3 csrB 4 5 show ?thesis by blast
qed

text \<open>
  C4, as first stated without the proviso on reaching the identity block ("the second
  \<^verbatim>\<open>Authorize\<close> call happens if and only if the request carried a non-nil identityCSR"),
  fails on a request that carries an identityCSR and a token the first \<^verbatim>\<open>Authorize\<close>
  refuses: the handler answers 401 after one \<^verbatim>\<open>Authorize\<close> call.
\<close>

theorem second_authorize_counterexample:
  "\<not> ((length (authorizeCalls (snd (snd
          (SSHSign sampleApiLib sampleAuth sampleContext (Inr (sampleRequest\<lparr>OTT := ''TOKEN-B''\<rparr>)) ([], []))))) = 2)
       = (IdentityCSR (sampleRequest\<lparr>OTT := ''TOKEN-B''\<rparr>) \<noteq> None))"
proof -
  have calls: "length (authorizeCalls (snd (snd
      (SSHSign sampleApiLib sampleAuth sampleContext (Inr (sampleRequest\<lparr>OTT := ''TOKEN-B''\<rparr>)) ([], []))))) = 1"
    by (simp add: sample_run_first_authorize_refused authorizeCalls_def)
  have csr: "IdentityCSR (sampleRequest\<lparr>OTT := ''TOKEN-B''\<rparr>) \<noteq> None"
    by (simp add: sampleRequest_def)
  from calls csr show ?thesis by simp
qed











subsection \<open>The JSON codec\<close>

lemma certificate_round_trip:
  assumes "wireRoundTrip lib (CertificateKey cert)"
    and "textRoundTrip lib (ssh_Marshal lib (CertificateKey cert))"
  shows "\<exists>json c'. SSHCertificate_MarshalJSON lib (SSHCertificate (Some cert)) = Inr json \<and>
           SSHCertificate_UnmarshalJSON lib json = Inr c' \<and>
           certWire lib c' = certWire lib (SSHCertificate (Some cert))"
proof -
  define wire where "wire = ssh_Marshal lib (CertificateKey cert)"
  define enc where "enc = base64_EncodeToString lib wire"
  from assms(1) obtain key' where
    nonempty: "wire \<noteq> []" and parse: "ssh_ParsePublicKey lib wire = Inr key'"
    and same: "ssh_Marshal lib key' = wire"
    and kind: "case key' of CertificateKey cert' \<Rightarrow> True | PlainKey k' \<Rightarrow> False"
    unfolding wireRoundTrip_def wire_def by auto
  from kind obtain cert' where key': "key' = CertificateKey cert'"
    by (cases key') simp_all
  from assms(2) nonempty have
    dec: "base64_DecodeString lib enc = Inr wire" and ne: "enc \<noteq> ''''"
    and js: "json_Unmarshal_string lib (quoted enc) = Inr enc"
    unfolding textRoundTrip_def wire_def enc_def by auto
  have m: "SSHCertificate_MarshalJSON lib (SSHCertificate (Some cert)) = Inr (quoted enc)"
    by (simp add: SSHCertificate_MarshalJSON_def wire_def enc_def)
  have u: "SSHCertificate_UnmarshalJSON lib (quoted enc) = Inr (SSHCertificate (Some cert'))"
    by (simp add: SSHCertificate_UnmarshalJSON_def js ne dec parse key')
  have w: "certWire lib (SSHCertificate (Some cert')) = certWire lib (SSHCertificate (Some cert))"
    using same by (simp add: certWire_def key' wire_def)
  from m u w show ?thesis by blast
qed

lemma public_key_round_trip:
  assumes "wireRoundTrip lib key"
    and "textRoundTrip lib (ssh_Marshal lib key)"
  shows "\<exists>json p'. SSHPublicKey_MarshalJSON lib (Some (SSHPublicKey (Some key))) = Inr json \<and>
           SSHPublicKey_UnmarshalJSON lib json = Inr p' \<and>
           keyWire lib p' = keyWire lib (SSHPublicKey (Some key))"
proof -
  define wire where "wire = ssh_Marshal lib key"
  define enc where "enc = base64_EncodeToString lib wire"
  from assms(1) obtain key' where
    nonempty: "wire \<noteq> []" and parse: "ssh_ParsePublicKey lib wire = Inr key'"
    and same: "ssh_Marshal lib key' = wire"
    unfolding wireRoundTrip_def wire_def by auto
  from assms(2) nonempty have
    dec: "base64_DecodeString lib enc = Inr wire" and ne: "enc \<noteq> ''''"
    and js: "json_Unmarshal_string lib (quoted enc) = Inr enc"
    unfolding textRoundTrip_def wire_def enc_def by auto
  have m: "SSHPublicKey_MarshalJSON lib (Some (SSHPublicKey (Some key))) = Inr (quoted enc)"
    by (simp add: SSHPublicKey_MarshalJSON_def wire_def enc_def)
  have u: "SSHPublicKey_UnmarshalJSON lib (quoted enc) = Inr (SSHPublicKey (Some key'))"
    by (simp add: SSHPublicKey_UnmarshalJSON_def js ne dec parse)
  have w: "keyWire lib (SSHPublicKey (Some key')) = keyWire lib (SSHPublicKey (Some key))"
    using same by (simp add: keyWire_def wire_def)
  from m u w show ?thesis by blast
qed

lemma absent_marshal:
  "SSHCertificate_MarshalJSON lib (SSHCertificate None) = Inr ''null''"
  "SSHPublicKey_MarshalJSON lib None = Inr ''null''"
  "SSHPublicKey_MarshalJSON lib (Some (SSHPublicKey None)) = Inr ''null''"
  by (simp_all add: SSHCertificate_MarshalJSON_def SSHPublicKey_MarshalJSON_def)

lemma absent_unmarshal:
  "json_Unmarshal_string lib data = Inr '''' \<Longrightarrow>
   SSHCertificate_UnmarshalJSON lib data = Inr (SSHCertificate None) \<and>
   SSHPublicKey_UnmarshalJSON lib data = Inr (SSHPublicKey None)"
  by (simp add: SSHCertificate_UnmarshalJSON_def SSHPublicKey_UnmarshalJSON_def)

lemma plain_key_unmarshal:
  "json_Unmarshal_string lib data = Inr s \<Longrightarrow> s \<noteq> '''' \<Longrightarrow>
   base64_DecodeString lib s = Inr bytes \<Longrightarrow>
   ssh_ParsePublicKey lib bytes = Inr (PlainKey k) \<Longrightarrow>
   SSHCertificate_UnmarshalJSON lib data =
     Inl (ErrorNew (''error decoding ssh certificate: '' @ fmt_T lib (PlainKey k)
            @ '' is not an *ssh.Certificate'')) \<and>
   SSHPublicKey_UnmarshalJSON lib data = Inr (SSHPublicKey (Some (PlainKey k)))"
  by (simp add: SSHCertificate_UnmarshalJSON_def SSHPublicKey_UnmarshalJSON_def)

lemma certificate_unmarshal_present:
  "json_Unmarshal_string lib data = Inr s \<Longrightarrow> s \<noteq> '''' \<Longrightarrow>
   base64_DecodeString lib s = Inr bytes \<Longrightarrow>
   ssh_ParsePublicKey lib bytes = Inr (CertificateKey cert) \<Longrightarrow>
   SSHCertificate_UnmarshalJSON lib data = Inr (SSHCertificate (Some cert))"
  by (simp add: SSHCertificate_UnmarshalJSON_def)

text \<open>
  C6. For every SSH certificate and every SSH public key whose wire form the SSH library
  parses back and whose Base64 text the Base64 and JSON libraries read back, marshalling to
  JSON and unmarshalling the result succeeds and yields a value with the same OpenSSH wire
  form; an absent value is marshalled as \<open>null\<close> and read back as absent. On decode, a JSON
  text that \<^verbatim>\<open>json.Unmarshal\<close> reads as the empty string (\<open>null\<close> or the empty string
  literal) yields the absent value and no error in both decoders; a non-empty string that
  Base64-decodes and parses as a plain public key makes the certificate decoder return an
  error, while the key decoder accepts it; one that parses as a certificate yields that
  certificate.
\<close>

theorem codec_round_trip:
  "(wireRoundTrip lib (CertificateKey cert) \<and> textRoundTrip lib (ssh_Marshal lib (CertificateKey cert)) \<longrightarrow>
      (\<exists>json c'. SSHCertificate_MarshalJSON lib (SSHCertificate (Some cert)) = Inr json \<and>
         SSHCertificate_UnmarshalJSON lib json = Inr c' \<and>
         certWire lib c' = certWire lib (SSHCertificate (Some cert)))) \<and>
   (wireRoundTrip lib key \<and> textRoundTrip lib (ssh_Marshal lib key) \<longrightarrow>
      (\<exists>json p'. SSHPublicKey_MarshalJSON lib (Some (SSHPublicKey (Some key))) = Inr json \<and>
         SSHPublicKey_UnmarshalJSON lib json = Inr p' \<and>
         keyWire lib p' = keyWire lib (SSHPublicKey (Some key)))) \<and>
   (json_Unmarshal_string lib ''null'' = Inr '''' \<longrightarrow>
      (\<exists>json. SSHCertificate_MarshalJSON lib (SSHCertificate None) = Inr json \<and>
         SSHCertificate_UnmarshalJSON lib json = Inr (SSHCertificate None)) \<and>
      (\<exists>json. SSHPublicKey_MarshalJSON lib (Some (SSHPublicKey None)) = Inr json \<and>
         SSHPublicKey_UnmarshalJSON lib json = Inr (SSHPublicKey None)) \<and>
      (\<exists>json. SSHPublicKey_MarshalJSON lib None = Inr json \<and>
         SSHPublicKey_UnmarshalJSON lib json = Inr (SSHPublicKey None))) \<and>
   (\<forall>data. json_Unmarshal_string lib data = Inr '''' \<longrightarrow>
      SSHCertificate_UnmarshalJSON lib data = Inr (SSHCertificate None) \<and>
      SSHPublicKey_UnmarshalJSON lib data = Inr (SSHPublicKey None)) \<and>
   (\<forall>data s bytes k.
      json_Unmarshal_string lib data = Inr s \<and> s \<noteq> '''' \<and>
      base64_DecodeString lib s = Inr bytes \<and> ssh_ParsePublicKey lib bytes = Inr (PlainKey k) \<longrightarrow>
        (\<exists>err. SSHCertificate_UnmarshalJSON lib data = Inl err) \<and>
        SSHPublicKey_UnmarshalJSON lib data = Inr (SSHPublicKey (Some (PlainKey k)))) \<and>
   (\<forall>data s bytes cert'.
      json_Unmarshal_string lib data = Inr s \<and> s \<noteq> '''' \<and>
      base64_DecodeString lib s = Inr bytes \<and> ssh_ParsePublicKey lib bytes = Inr (CertificateKey cert') \<longrightarrow>
        SSHCertificate_UnmarshalJSON lib data = Inr (SSHCertificate (Some cert')))"
proof -
  have absent: "json_Unmarshal_string lib ''null'' = Inr '''' \<longrightarrow>
      (\<exists>json. SSHCertificate_MarshalJSON lib (SSHCertificate None) = Inr json \<and>
         SSHCertificate_UnmarshalJSON lib json = Inr (SSHCertificate None)) \<and>
      (\<exists>json. SSHPublicKey_MarshalJSON lib (Some (SSHPublicKey None)) = Inr json \<and>
         SSHPublicKey_UnmarshalJSON lib json = Inr (SSHPublicKey None)) \<and>
      (\<exists>json. SSHPublicKey_MarshalJSON lib None = Inr json \<and>
         SSHPublicKey_UnmarshalJSON lib json = Inr (SSHPublicKey None))"
    using absent_unmarshal [of lib "''null''"] by (simp add: absent_marshal)
  have empty: "\<forall>data. json_Unmarshal_string lib data = Inr '''' \<longrightarrow>
      SSHCertificate_UnmarshalJSON lib data = Inr (SSHCertificate None) \<and>
      SSHPublicKey_UnmarshalJSON lib data = Inr (SSHPublicKey None)"
    using absent_unmarshal by blast
  have plain: "\<forall>data s bytes k.
      json_Unmarshal_string lib data = Inr s \<and> s \<noteq> '''' \<and>
      base64_DecodeString lib s = Inr bytes \<and> ssh_ParsePublicKey lib bytes = Inr (PlainKey k) \<longrightarrow>
        (\<exists>err. SSHCertificate_UnmarshalJSON lib data = Inl err) \<and>
        SSHPublicKey_UnmarshalJSON lib data = Inr (SSHPublicKey (Some (PlainKey k)))"
    using plain_key_unmarshal [of lib] by blast
  have present: "\<forall>data s bytes cert'.
      json_Unmarshal_string lib data = Inr s \<and> s \<noteq> '''' \<and>
      base64_DecodeString lib s = Inr bytes \<and> ssh_ParsePublicKey lib bytes = Inr (CertificateKey cert') \<longrightarrow>
        SSHCertificate_UnmarshalJSON lib data = Inr (SSHCertificate (Some cert'))"
    using certificate_unmarshal_present [of lib] by blast
  from certificate_round_trip [of lib cert] public_key_round_trip [of lib key] absent empty plain present
  show ?thesis by blast
qed

lemma sample_codec:
  "ssh_Marshal sampleApiLib (PlainKey (KeyData algo blob)) = 1 # blob"
  "ssh_Marshal sampleApiLib (CertificateKey cert) = 2 # keyBlob (Key cert)"
  "base64_EncodeToString sampleApiLib [2, 3] = ''AgM=''"
  "base64_EncodeToString sampleApiLib [1, 3] = ''AQM=''"
  "base64_DecodeString sampleApiLib ''AgM='' = Inr [2, 3]"
  "base64_DecodeString sampleApiLib ''AQM='' = Inr [1, 3]"
  "json_Unmarshal_string sampleApiLib ''null'' = Inr ''''"
  "json_Unmarshal_string sampleApiLib (quoted s) = Inr s"
  by (simp_all add: sampleApiLib_def quoted_def)

lemma sample_wire_round_trip:
  "wireRoundTrip sampleApiLib (CertificateKey (sampleSSHCert (KeyData ''ssh-ed25519'' [3]) ''user'' [''alice'']))"
  "wireRoundTrip sampleApiLib (PlainKey (KeyData ''ssh-ed25519'' [3]))"
  by (simp_all add: wireRoundTrip_def sample_codec sample_parse_key sampleSSHCert_def)

lemma sample_text_round_trip:
  "textRoundTrip sampleApiLib [2, 3]" "textRoundTrip sampleApiLib [1, 3]"
  by (simp_all add: textRoundTrip_def sample_codec)

theorem codec_round_trip_witness:
  "wireRoundTrip sampleApiLib (CertificateKey (sampleSSHCert (KeyData ''ssh-ed25519'' [3]) ''user'' [''alice''])) \<and>
   textRoundTrip sampleApiLib [2, 3] \<and>
   (\<exists>json c'. SSHCertificate_MarshalJSON sampleApiLib
         (SSHCertificate (Some (sampleSSHCert (KeyData ''ssh-ed25519'' [3]) ''user'' [''alice'']))) = Inr json \<and>
      SSHCertificate_UnmarshalJSON sampleApiLib json = Inr c' \<and>
      certWire sampleApiLib c' = Some [2, 3]) \<and>
   (\<exists>json p'. SSHPublicKey_MarshalJSON sampleApiLib
         (Some (SSHPublicKey (Some (PlainKey (KeyData ''ssh-ed25519'' [3]))))) = Inr json \<and>
      SSHPublicKey_UnmarshalJSON sampleApiLib json = Inr p' \<and>
      keyWire sampleApiLib p' = Some [1, 3]) \<and>
   SSHCertificate_UnmarshalJSON sampleApiLib ''null'' = Inr (SSHCertificate None) \<and>
   SSHPublicKey_UnmarshalJSON sampleApiLib (quoted '''') = Inr (SSHPublicKey None) \<and>
   (\<exists>err. SSHCertificate_UnmarshalJSON sampleApiLib (quoted ''AQM='') = Inl err)"
proof -
  note inst = codec_round_trip [of sampleApiLib
      "sampleSSHCert (KeyData ''ssh-ed25519'' [3]) ''user'' [''alice'']"
      "PlainKey (KeyData ''ssh-ed25519'' [3])"]
  have wire: "ssh_Marshal sampleApiLib
      (CertificateKey (sampleSSHCert (KeyData ''ssh-ed25519'' [3]) ''user'' [''alice''])) = [2, 3]"
    "ssh_Marshal sampleApiLib (PlainKey (KeyData ''ssh-ed25519'' [3])) = [1, 3]"
    by (simp_all add: sample_codec sampleSSHCert_def)
  from inst [THEN conjunct1] sample_wire_round_trip(1) sample_text_round_trip(1)
  have 1: "\<exists>json c'. SSHCertificate_MarshalJSON sampleApiLib
         (SSHCertificate (Some (sampleSSHCert (KeyData ''ssh-ed25519'' [3]) ''user'' [''alice'']))) = Inr json \<and>
      SSHCertificate_UnmarshalJSON sampleApiLib json = Inr c' \<and>
      certWire sampleApiLib c' = Some [2, 3]"
    by (simp add: wire certWire_def)
  from inst [THEN conjunct2, THEN conjunct1] sample_wire_round_trip(2) sample_text_round_trip(2)
  have 2: "\<exists>json p'. SSHPublicKey_MarshalJSON sampleApiLib
         (Some (SSHPublicKey (Some (PlainKey (KeyData ''ssh-ed25519'' [3]))))) = Inr json \<and>
      SSHPublicKey_UnmarshalJSON sampleApiLib json = Inr p' \<and>
      keyWire sampleApiLib p' = Some [1, 3]"
    by (simp add: wire keyWire_def)
  from inst [THEN conjunct2, THEN conjunct2, THEN conjunct2, THEN conjunct1]
  have 3: "SSHCertificate_UnmarshalJSON sampleApiLib ''null'' = Inr (SSHCertificate None)"
    "SSHPublicKey_UnmarshalJSON sampleApiLib (quoted '''') = Inr (SSHPublicKey None)"
    by (simp_all add: sample_codec)
  from inst [THEN conjunct2, THEN conjunct2, THEN conjunct2, THEN conjunct2, THEN conjunct1,
      rule_format, of "quoted ''AQM=''" "''AQM=''" "[1, 3]" "KeyData ''ssh-ed25519'' [3]"]
  have 4: "\<exists>err. SSHCertificate_UnmarshalJSON sampleApiLib (quoted ''AQM='') = Inl err"
    by (simp add: sample_codec sample_parse_key)
  from sample_wire_round_trip(1) sample_text_round_trip(1) 1 2 3 4 show ?thesis by blast
qed

end
